theory Spec2Isabelle
  imports Complex_Main "HOL-Library.Sublist"
begin

section \<open>Strings, digits and decimal amounts\<close>

text \<open>
  The client (\<^verbatim>\<open>src/rwa-backend/index.ts\<close>) is a menu-driven program over three
  outside capabilities: the console (\<^verbatim>\<open>readline\<close>), the chain client (\<^verbatim>\<open>viem\<close>) and the
  signer (\<^verbatim>\<open>privateKeyToAccount\<close>). JavaScript strings are modelled as \<open>string\<close>; the
  strings that matter here (menu choices, decimal amounts, hexadecimal addresses) are ASCII.
\<close>

definition digit_chars :: string where
  "digit_chars = ''0123456789''"

definition is_digit :: "char \<Rightarrow> bool" where
  "is_digit c = (c \<in> set digit_chars)"

definition digit_val :: "char \<Rightarrow> nat" where
  "digit_val c = length (takeWhile (\<lambda>x. x \<noteq> c) digit_chars)"

definition digit_char :: "nat \<Rightarrow> char" where
  "digit_char n = digit_chars ! n"

definition nat_of_digits :: "string \<Rightarrow> nat" where
  "nat_of_digits ds = foldl (\<lambda>a c. 10 * a + digit_val c) 0 ds"

function digits_of_nat :: "nat \<Rightarrow> string" where
  "digits_of_nat n =
     (if n < 10 then [digit_char n]
      else digits_of_nat (n div 10) @ [digit_char (n mod 10)])"
  by pat_completeness auto
termination
  by (relation "measure (\<lambda>n. n)") auto

declare digits_of_nat.simps [simp del]

fun pad_digits :: "nat \<Rightarrow> nat \<Rightarrow> string" where
  "pad_digits 0 m = []"
| "pad_digits (Suc k) m = pad_digits k (m div 10) @ [digit_char (m mod 10)]"

text \<open>
  A decimal string: an optional minus sign, then digits with at most one point, and at
  least one digit in all. \<open>decimal_parts\<close> gives the sign, the integer digits and the
  fraction digits; \<open>decimal_value\<close> is the rational number the string denotes.
\<close>

definition decimal_parts :: "string \<Rightarrow> (bool \<times> string \<times> string) option" where
  "decimal_parts s =
     (let neg = (s \<noteq> [] \<and> hd s = CHR ''-'');
          body = (if neg then tl s else s);
          ip = takeWhile (\<lambda>c. c \<noteq> CHR ''.'') body;
          rest = dropWhile (\<lambda>c. c \<noteq> CHR ''.'') body;
          fp = (if rest = [] then [] else tl rest)
      in if list_all is_digit ip \<and> list_all is_digit fp \<and> (ip \<noteq> [] \<or> fp \<noteq> [])
         then Some (neg, ip, fp) else None)"

definition parts_value :: "bool \<times> string \<times> string \<Rightarrow> rat" where
  "parts_value p =
     (case p of (neg, ip, fp) \<Rightarrow>
        (if neg then - 1 else 1) *
        (of_nat (nat_of_digits ip) + of_nat (nat_of_digits fp) / 10 ^ length fp))"

definition decimal_value :: "string \<Rightarrow> rat option" where
  "decimal_value s = map_option parts_value (decimal_parts s)"

datatype error = InvalidDecimalNumber

text \<open>
  Modelled from the spec: \<^verbatim>\<open>parseUnits\<close> of the chain client library, which
  \<^verbatim>\<open>parseAmount\<close> (index.ts, line 92) returns unchanged and whose source is not part of
  the repository. The spec gives the amount scaling as
  \<open>integer = round(decimal_string \<times> 10^decimals)\<close>, rejecting non-numeric input.
\<close>

definition parseAmount :: "string \<Rightarrow> nat \<Rightarrow> error + int" where
  "parseAmount amount decimals =
     (case decimal_value amount of
        None \<Rightarrow> Inl InvalidDecimalNumber
      | Some v \<Rightarrow> Inr (round (v * 10 ^ decimals)))"

text \<open>
  Modelled from the spec: \<^verbatim>\<open>formatUnits\<close> of the chain client library, which
  \<^verbatim>\<open>formatAmount\<close> (index.ts, line 87) returns unchanged. The spec calls its result the
  decimal-scaled amount: the decimal string of \<open>amount / 10^decimals\<close>, written here with
  exactly \<open>decimals\<close> fraction digits.
\<close>

definition formatAmount :: "int \<Rightarrow> nat \<Rightarrow> string" where
  "formatAmount amount decimals =
     (let m = nat \<bar>amount\<bar> in
        (if amount < 0 then ''-'' else '''') @
        digits_of_nat (m div 10 ^ decimals) @
        (if decimals = 0 then '''' else ''.'' @ pad_digits decimals (m mod 10 ^ decimals)))"

subsection \<open>Digits\<close>

lemma digit_val_digit_char: "n < 10 \<Longrightarrow> digit_val (digit_char n) = n"
proof -
  assume "n < 10"
  then have "n \<in> {0, 1, 2, 3, 4, 5, 6, 7, 8, 9}" by auto
  then show ?thesis
    by (auto simp: digit_val_def digit_char_def digit_chars_def)
qed

lemma is_digit_digit_char: "n < 10 \<Longrightarrow> is_digit (digit_char n)"
proof -
  assume "n < 10"
  then have "n \<in> {0, 1, 2, 3, 4, 5, 6, 7, 8, 9}" by auto
  then show ?thesis
    by (auto simp: is_digit_def digit_char_def digit_chars_def)
qed

lemma digit_not_point: "is_digit c \<Longrightarrow> c \<noteq> CHR ''.''"
  by (auto simp: is_digit_def digit_chars_def)

lemma digit_not_minus: "is_digit c \<Longrightarrow> c \<noteq> CHR ''-''"
  by (auto simp: is_digit_def digit_chars_def)

lemma nat_of_digits_Nil: "nat_of_digits [] = 0"
  by (simp add: nat_of_digits_def)

lemma nat_of_digits_snoc:
  "nat_of_digits (ds @ [c]) = 10 * nat_of_digits ds + digit_val c"
  by (simp add: nat_of_digits_def)

lemma digits_of_nat_digits: "list_all is_digit (digits_of_nat n)"
proof (induction n rule: digits_of_nat.induct)
  case (1 n)
  show ?case
  proof (cases "n < 10")
    case True
    then show ?thesis
      by (subst digits_of_nat.simps) (simp add: is_digit_digit_char)
  next
    case False
    with 1 show ?thesis
      by (subst digits_of_nat.simps) (simp add: is_digit_digit_char)
  qed
qed

lemma digits_of_nat_nonempty: "digits_of_nat n \<noteq> []"
  by (subst digits_of_nat.simps) simp

lemma nat_of_digits_of_nat: "nat_of_digits (digits_of_nat n) = n"
proof (induction n rule: digits_of_nat.induct)
  case (1 n)
  show ?case
  proof (cases "n < 10")
    case True
    then show ?thesis
      by (subst digits_of_nat.simps) (simp add: nat_of_digits_def digit_val_digit_char)
  next
    case False
    with 1 show ?thesis
      by (subst digits_of_nat.simps) (simp add: nat_of_digits_snoc digit_val_digit_char)
  qed
qed

lemma pad_digits_digits: "list_all is_digit (pad_digits k m)"
  by (induction k arbitrary: m) (simp_all add: is_digit_digit_char)

lemma length_pad_digits: "length (pad_digits k m) = k"
  by (induction k arbitrary: m) simp_all

lemma nat_of_pad_digits: "nat_of_digits (pad_digits k m) = m mod 10 ^ k"
proof (induction k arbitrary: m)
  case 0
  show ?case by (simp add: nat_of_digits_def)
next
  case (Suc k)
  have "m mod (10 * 10 ^ k) = 10 * (m div 10 mod 10 ^ k) + m mod 10"
    by (simp add: mod_mult2_eq)
  with Suc show ?case
    by (simp add: nat_of_digits_snoc digit_val_digit_char)
qed

subsection \<open>Reading back a formatted amount\<close>

lemma takeWhile_point:
  "list_all is_digit ds \<Longrightarrow> takeWhile (\<lambda>c. c \<noteq> CHR ''.'') (ds @ CHR ''.'' # fs) = ds"
  by (induction ds) (auto dest: digit_not_point)

lemma dropWhile_point:
  "list_all is_digit ds \<Longrightarrow> dropWhile (\<lambda>c. c \<noteq> CHR ''.'') (ds @ CHR ''.'' # fs) = CHR ''.'' # fs"
  by (induction ds) (auto dest: digit_not_point)

lemma takeWhile_digits:
  "list_all is_digit ds \<Longrightarrow> takeWhile (\<lambda>c. c \<noteq> CHR ''.'') ds = ds"
  by (induction ds) (auto dest: digit_not_point)

lemma dropWhile_digits:
  "list_all is_digit ds \<Longrightarrow> dropWhile (\<lambda>c. c \<noteq> CHR ''.'') ds = []"
  by (induction ds) (auto dest: digit_not_point)

lemma hd_digits_not_minus:
  "list_all is_digit ds \<Longrightarrow> ds \<noteq> [] \<Longrightarrow> hd (ds @ rest) \<noteq> CHR ''-''"
  by (cases ds) (auto dest: digit_not_minus)

lemma decimal_parts_unsigned:
  assumes "list_all is_digit ip" "ip \<noteq> []" "list_all is_digit fp"
  shows "decimal_parts (ip @ CHR ''.'' # fp) = Some (False, ip, fp)"
    and "decimal_parts (ip @ []) = Some (False, ip, [])"
    and "decimal_parts (CHR ''-'' # ip @ CHR ''.'' # fp) = Some (True, ip, fp)"
    and "decimal_parts (CHR ''-'' # ip @ []) = Some (True, ip, [])"
  using assms hd_digits_not_minus [of ip "CHR ''.'' # fp"] hd_digits_not_minus [of ip "[]"]
  by (simp_all add: decimal_parts_def Let_def takeWhile_point dropWhile_point
      takeWhile_digits dropWhile_digits)

lemma decimal_parts_formatAmount:
  "decimal_parts (formatAmount n d) =
     Some (n < 0, digits_of_nat (nat \<bar>n\<bar> div 10 ^ d),
           if d = 0 then [] else pad_digits d (nat \<bar>n\<bar> mod 10 ^ d))"
proof -
  let ?ip = "digits_of_nat (nat \<bar>n\<bar> div 10 ^ d)"
  let ?fp = "pad_digits d (nat \<bar>n\<bar> mod 10 ^ d)"
  have ip: "list_all is_digit ?ip" "?ip \<noteq> []"
    by (rule digits_of_nat_digits, rule digits_of_nat_nonempty)
  have fp: "list_all is_digit ?fp"
    by (rule pad_digits_digits)
  show ?thesis
    using decimal_parts_unsigned [OF ip fp]
    by (cases "n < 0") (auto simp: formatAmount_def Let_def)
qed

lemma decimal_value_formatAmount:
  "decimal_value (formatAmount n d) = Some (of_int n / 10 ^ d)"
proof -
  define m where "m = nat \<bar>n\<bar>"
  have split: "(of_nat (m div 10 ^ d) :: rat) + of_nat (m mod 10 ^ d) / 10 ^ d = of_nat m / 10 ^ d"
  proof -
    have "(of_nat (m div 10 ^ d * 10 ^ d + m mod 10 ^ d) :: rat) = of_nat m"
      by (simp only: div_mult_mod_eq)
    then have "(of_nat (m div 10 ^ d) :: rat) * 10 ^ d + of_nat (m mod 10 ^ d) = of_nat m"
      by (simp only: of_nat_add of_nat_mult of_nat_power of_nat_numeral)
    then show ?thesis
      by (simp add: field_simps)
  qed
  have sign: "(if n < 0 then - 1 else 1) * (of_nat m :: rat) = of_int n"
    by (simp add: m_def)
  have "decimal_value (formatAmount n d) =
      Some ((if n < 0 then - 1 else 1) * ((of_nat (m div 10 ^ d) :: rat) +
        of_nat (m mod 10 ^ d) / 10 ^ d))"
    by (cases "d = 0")
      (simp_all add: decimal_value_def decimal_parts_formatAmount parts_value_def m_def
        nat_of_digits_of_nat nat_of_pad_digits length_pad_digits nat_of_digits_Nil)
  also have "\<dots> = Some (of_int n / 10 ^ d)"
    using sign by (simp only: split) simp
  finally show ?thesis .
qed

lemma round_scaled_close:
  fixes v :: rat
  shows "\<bar>of_int (round (v * 10 ^ d)) / 10 ^ d - v\<bar> \<le> 1 / 10 ^ d"
proof -
  have pos: "(0::rat) < 10 ^ d" by simp
  have "\<bar>of_int (round (v * 10 ^ d)) - v * 10 ^ d\<bar> \<le> 1 / 2"
    by (rule of_int_round_abs_le)
  then have "\<bar>of_int (round (v * 10 ^ d)) - v * 10 ^ d\<bar> \<le> 1"
    by linarith
  then have "\<bar>of_int (round (v * 10 ^ d)) - v * 10 ^ d\<bar> / 10 ^ d \<le> 1 / 10 ^ d"
    using pos by (simp add: divide_right_mono)
  moreover have "of_int (round (v * 10 ^ d)) / 10 ^ d - v =
      (of_int (round (v * 10 ^ d)) - v * 10 ^ d) / 10 ^ d"
    by (simp add: diff_divide_distrib)
  then have "\<bar>of_int (round (v * 10 ^ d)) / 10 ^ d - v\<bar> =
      \<bar>of_int (round (v * 10 ^ d)) - v * 10 ^ d\<bar> / 10 ^ d"
    by (simp only: abs_divide) simp
  ultimately show ?thesis by simp
qed

text \<open>
  C6 (round trip of the amount scaling). For every valid decimal string \<open>s\<close>, with value
  \<open>v\<close>, and every precision \<open>d\<close>: \<open>parseAmount s d\<close> returns an integer \<open>n\<close>, and the
  string \<open>formatAmount n d\<close> is again a valid decimal string, whose value differs from
  \<open>v\<close> by at most one smallest unit \<open>1 / 10^d\<close>.
\<close>

theorem parseAmount_formatAmount_roundtrip:
  assumes "decimal_value s = Some v"
  shows "\<exists>n v'. parseAmount s d = Inr n \<and> decimal_value (formatAmount n d) = Some v' \<and>
           \<bar>v' - v\<bar> \<le> 1 / 10 ^ d"
  using assms round_scaled_close [of v d]
  by (simp add: parseAmount_def decimal_value_formatAmount)

lemma decimal_value_example: "decimal_value ''1.25'' = Some (5 / 4)"
  by (simp add: decimal_value_def decimal_parts_def parts_value_def nat_of_digits_def
      digit_val_def is_digit_def digit_chars_def)

theorem parseAmount_formatAmount_roundtrip_witness:
  "decimal_value ''1.25'' = Some (5 / 4) \<and>
   (\<exists>n v'. parseAmount ''1.25'' 1 = Inr n \<and> decimal_value (formatAmount n 1) = Some v' \<and>
      \<bar>v' - 5 / 4\<bar> \<le> 1 / 10 ^ 1)"
  using decimal_value_example
    parseAmount_formatAmount_roundtrip [OF decimal_value_example, of 1]
  by simp

section \<open>JavaScript string helpers\<close>

text \<open>
  \<open>parseInt\<close> follows the language definition: leading white space is skipped, a sign is
  read, a \<open>0x\<close> prefix selects base 16, and the longest prefix of digits is the value;
  \<open>None\<close> is \<open>NaN\<close>. The result is an exact integer here; JavaScript rounds values
  above \<open>2^53\<close>, which are beyond every list length they are compared with.
  \<open>toLowerCase\<close> is needed only to compare an answer with \<open>y\<close> or \<open>c\<close>.
\<close>

definition startsWith :: "string \<Rightarrow> string \<Rightarrow> bool" where
  "startsWith str p = (take (length p) str = p)"

definition lower_char :: "char \<Rightarrow> char" where
  "lower_char c =
     (case map_of (zip ''ABCDEFGHIJKLMNOPQRSTUVWXYZ'' ''abcdefghijklmnopqrstuvwxyz'') c of
        Some l \<Rightarrow> l | None \<Rightarrow> c)"

definition toLowerCase :: "string \<Rightarrow> string" where
  "toLowerCase str = map lower_char str"

definition js_whitespace :: "char \<Rightarrow> bool" where
  "js_whitespace c = (c \<in> set [CHR 0x09, CHR 0x0A, CHR 0x0B, CHR 0x0C, CHR 0x0D, CHR '' '', CHR 0xA0])"

definition hex_chars :: string where
  "hex_chars = ''0123456789abcdef''"

definition is_hex_digit :: "char \<Rightarrow> bool" where
  "is_hex_digit c = (lower_char c \<in> set hex_chars)"

definition hex_val :: "char \<Rightarrow> nat" where
  "hex_val c = length (takeWhile (\<lambda>x. x \<noteq> lower_char c) hex_chars)"

definition nat_of_hex :: "string \<Rightarrow> nat" where
  "nat_of_hex ds = foldl (\<lambda>a c. 16 * a + hex_val c) 0 ds"

definition parseInt :: "string \<Rightarrow> int option" where
  "parseInt str =
     (let t = dropWhile js_whitespace str;
          neg = (t \<noteq> [] \<and> hd t = CHR ''-'');
          t = (if t \<noteq> [] \<and> (hd t = CHR ''+'' \<or> hd t = CHR ''-'') then tl t else t);
          hex = (startsWith t ''0x'' \<or> startsWith t ''0X'');
          t = (if hex then drop 2 t else t);
          ds = takeWhile (if hex then is_hex_digit else is_digit) t
      in if ds = [] then None
         else Some ((if neg then - 1 else 1) *
                    int (if hex then nat_of_hex ds else nat_of_digits ds)))"

definition toHexAddress :: "string \<Rightarrow> string" where
  "toHexAddress a = (if \<not> startsWith a ''0x'' then ''0x'' @ a else a)"

section \<open>Session state\<close>

text \<open>
  The module-level variables of \<^verbatim>\<open>index.ts\<close> (lines 40-45 and 70-84) are the fields of
  \<open>session\<close>. A client is the transport and chain it was created with, and for the
  wallet client the account it is bound to. \<open>chainId\<close> is \<open>None\<close> when it is \<open>NaN\<close>.
  \<open>LocalAccount\<close> is the object \<^verbatim>\<open>privateKeyToAccount\<close> returns: its address and the
  key it signs with.
\<close>

type_synonym address = string

record Config =
  rpcUrl :: string
  chainId :: "int option"
  tokenFactoryAddress :: string
  privateKey :: string

record LocalAccount =
  address :: address
  source :: string

record PublicClient =
  transport :: string
  chain :: "int option"

record WalletClient = PublicClient +
  account :: LocalAccount

record AccountInfo =
  name :: string
  privateKey :: string
  account :: LocalAccount
  address :: address

record session =
  config :: Config
  publicClient :: PublicClient
  walletClient :: WalletClient
  account :: LocalAccount
  userAddress :: address
  tokenAddress :: "address option"
  accounts :: "AccountInfo list"
  currentAccountIndex :: nat

section \<open>The outside world\<close>

text \<open>
  The program reads lines from the operator, talks to the chain node and draws random
  bytes. The environment \<open>env\<close> holds what the outside will supply, in order: the lines
  still to be typed (\<open>stdin\<close>), the replies of the node to the calls still to be made
  (\<open>replies\<close>), and the random keys (\<open>entropy\<close>, the hexadecimal text of successive
  \<^verbatim>\<open>crypto.randomBytes(32)\<close>). \<open>trace\<close> records every effect of the program in order:
  console output, prompts and calls handed to the chain client. A contract write handed
  to the wallet client is the event \<open>Call (WriteContract \<dots>)\<close>; it carries the wallet
  client and the account it is signed with.

  A reply is awaited for every call. \<open>Failed\<close>, or a reply of another shape than the call
  returns, is a rejected promise, which the program sees as an exception. When the
  replies or the input lines are exhausted the program waits forever: the run ends there
  (\<open>Halt\<close>).

  A function of the program ends in one of four ways: it returns a value, it throws, it
  calls \<^verbatim>\<open>showMainMenu\<close> (\<open>Menu\<close>), or the process ends or waits forever (\<open>Halt\<close>).
  Every operation of the source ends with \<^verbatim>\<open>await showMainMenu()\<close>, and a call of
  \<^verbatim>\<open>showMainMenu\<close> never returns: the only exit is \<^verbatim>\<open>process.exit\<close>. So \<open>Menu s e\<close>
  hands the session \<open>s\<close> and the environment \<open>e\<close> to the menu, and whatever follows the
  call in the caller never runs. The functions \<open>question\<close>, \<open>request\<close>, \<open>promise_all\<close> and
  \<open>parsed\<close> take the rest of the operation as their last argument; \<open>try_catch\<close> is the
  \<^verbatim>\<open>try \<dots> catch\<close> block.
\<close>

datatype arg = Addr address | Uint int | Str string

datatype call =
    ReadContract address string "arg list"
  | WriteContract WalletClient address string "arg list" LocalAccount
  | WaitForTransactionReceipt string
  | GetLogs address nat nat
  | GetBalance address

datatype log = TokenCreated "address option" "address option"

datatype reply =
    Failed
  | Text string
  | Number nat
  | TxHash string
  | Receipt nat
  | Logs "log list"

datatype event =
    Log string
  | Error string
  | Question string
  | Call call
  | Close

record env =
  stdin :: "string list"
  replies :: "reply list"
  entropy :: "nat \<Rightarrow> string"
  drawn :: nat
  trace :: "event list"

datatype halt = InputClosed | ChainSilent | ProcessExit nat

datatype 'a outcome =
    Return 'a session env
  | Throw session env
  | Menu session env
  | Halt halt session env

definition emit :: "event \<Rightarrow> env \<Rightarrow> env" where
  "emit ev e = e\<lparr>trace := trace e @ [ev]\<rparr>"

definition console_log :: "string \<Rightarrow> env \<Rightarrow> env" where
  "console_log m e = emit (Log m) e"

definition console_error :: "string \<Rightarrow> env \<Rightarrow> env" where
  "console_error m e = emit (Error m) e"

fun console_lines :: "string list \<Rightarrow> env \<Rightarrow> env" where
  "console_lines [] e = e"
| "console_lines (m # ms) e = console_lines ms (console_log m e)"

lemma env_emit [simp]:
  "stdin (emit ev e) = stdin e"
  "replies (emit ev e) = replies e"
  "entropy (emit ev e) = entropy e"
  "drawn (emit ev e) = drawn e"
  "trace (emit ev e) = trace e @ [ev]"
  by (simp_all add: emit_def)

lemma env_console_log [simp]:
  "stdin (console_log m e) = stdin e"
  "replies (console_log m e) = replies e"
  "entropy (console_log m e) = entropy e"
  "drawn (console_log m e) = drawn e"
  "trace (console_log m e) = trace e @ [Log m]"
  by (simp_all add: console_log_def)

lemma env_console_error [simp]:
  "stdin (console_error m e) = stdin e"
  "replies (console_error m e) = replies e"
  "entropy (console_error m e) = entropy e"
  "drawn (console_error m e) = drawn e"
  "trace (console_error m e) = trace e @ [Error m]"
  by (simp_all add: console_error_def)

lemma env_console_lines [simp]:
  "stdin (console_lines ms e) = stdin e"
  "replies (console_lines ms e) = replies e"
  "entropy (console_lines ms e) = entropy e"
  "drawn (console_lines ms e) = drawn e"
  "trace (console_lines ms e) = trace e @ map Log ms"
  by (induction ms arbitrary: e) simp_all

definition question :: "string \<Rightarrow> session \<Rightarrow> env \<Rightarrow> (string \<Rightarrow> env \<Rightarrow> 'a outcome) \<Rightarrow> 'a outcome" where
  "question q s e k =
     (case stdin e of
        [] \<Rightarrow> Halt InputClosed s (emit (Question q) e)
      | l # ls \<Rightarrow> k l ((emit (Question q) e)\<lparr>stdin := ls\<rparr>))"

fun expected :: "call \<Rightarrow> reply \<Rightarrow> bool" where
  "expected (ReadContract t fn args) (Text x) = (fn = ''name'' \<or> fn = ''symbol'')"
| "expected (ReadContract t fn args) (Number n) = (fn \<noteq> ''name'' \<and> fn \<noteq> ''symbol'')"
| "expected (WriteContract w t fn args a) (TxHash h) = True"
| "expected (WaitForTransactionReceipt h) (Receipt b) = True"
| "expected (GetLogs a f t) (Logs ls) = True"
| "expected (GetBalance a) (Number n) = True"
| "expected c r = False"

fun number_of :: "reply \<Rightarrow> nat" where
  "number_of (Number n) = n"
| "number_of (Receipt b) = b"
| "number_of r = 0"

fun text_of :: "reply \<Rightarrow> string" where
  "text_of (Text x) = x"
| "text_of (TxHash h) = h"
| "text_of r = []"

fun logs_of :: "reply \<Rightarrow> log list" where
  "logs_of (Logs ls) = ls"
| "logs_of r = []"

definition request :: "call \<Rightarrow> session \<Rightarrow> env \<Rightarrow> (reply \<Rightarrow> env \<Rightarrow> 'a outcome) \<Rightarrow> 'a outcome" where
  "request c s e k =
     (case replies e of
        [] \<Rightarrow> Halt ChainSilent s (emit (Call c) e)
      | r # rs \<Rightarrow>
          (if expected c r then k r ((emit (Call c) e)\<lparr>replies := rs\<rparr>)
           else Throw s ((emit (Call c) e)\<lparr>replies := rs\<rparr>)))"

text \<open>
  \<^verbatim>\<open>Promise.all\<close> issues all its calls at once and rejects as soon as one reply is a
  rejection, also when other replies never arrive.
\<close>

definition promise_all :: "call list \<Rightarrow> session \<Rightarrow> env \<Rightarrow> (reply list \<Rightarrow> env \<Rightarrow> 'a outcome) \<Rightarrow> 'a outcome" where
  "promise_all cs s e k =
     (let rs = take (length cs) (replies e);
          e' = e\<lparr>replies := drop (length cs) (replies e), trace := trace e @ map Call cs\<rparr>
      in if list_ex (\<lambda>(c, r). \<not> expected c r) (zip cs rs) then Throw s e'
         else if length rs < length cs then Halt ChainSilent s e'
         else k rs e')"

definition try_catch :: "'a outcome \<Rightarrow> (session \<Rightarrow> env \<Rightarrow> 'a outcome) \<Rightarrow> 'a outcome" where
  "try_catch r h =
     (case r of
        Return x s e \<Rightarrow> Return x s e
      | Throw s e \<Rightarrow> h s e
      | Menu s e \<Rightarrow> Menu s e
      | Halt a s e \<Rightarrow> Halt a s e)"

definition and_then :: "'a outcome \<Rightarrow> ('a \<Rightarrow> session \<Rightarrow> env \<Rightarrow> 'b outcome) \<Rightarrow> 'b outcome" where
  "and_then r k =
     (case r of
        Return x s e \<Rightarrow> k x s e
      | Throw s e \<Rightarrow> Throw s e
      | Menu s e \<Rightarrow> Menu s e
      | Halt h s e \<Rightarrow> Halt h s e)"

definition then_menu :: "'a outcome \<Rightarrow> unit outcome" where
  "then_menu r = and_then r (\<lambda>x s e. Menu s e)"

lemma try_catch_simps [simp]:
  "try_catch (Return x s e) h = Return x s e"
  "try_catch (Throw s e) h = h s e"
  "try_catch (Menu s e) h = Menu s e"
  "try_catch (Halt a s e) h = Halt a s e"
  by (simp_all add: try_catch_def)

lemma and_then_simps [simp]:
  "and_then (Return x s e) k = k x s e"
  "and_then (Throw s e) k = Throw s e"
  "and_then (Menu s e) k = Menu s e"
  "and_then (Halt a s e) k = Halt a s e"
  by (simp_all add: and_then_def)

lemma then_menu_simps [simp]:
  "then_menu (Return x s e) = Menu s e"
  "then_menu (Throw s e) = Throw s e"
  "then_menu (Menu s e) = Menu s e"
  "then_menu (Halt a s e) = Halt a s e"
  by (simp_all add: then_menu_def)

definition readContract :: "address \<Rightarrow> string \<Rightarrow> arg list \<Rightarrow> session \<Rightarrow> env \<Rightarrow> (reply \<Rightarrow> env \<Rightarrow> 'a outcome) \<Rightarrow> 'a outcome" where
  "readContract t fn args s e k = request (ReadContract t fn args) s e k"

definition writeContract :: "address \<Rightarrow> string \<Rightarrow> arg list \<Rightarrow> session \<Rightarrow> env \<Rightarrow> (string \<Rightarrow> env \<Rightarrow> 'a outcome) \<Rightarrow> 'a outcome" where
  "writeContract t fn args s e k =
     request (WriteContract (walletClient s) t fn args (session.account s)) s e (\<lambda>r. k (text_of r))"

definition waitForTransactionReceipt :: "string \<Rightarrow> session \<Rightarrow> env \<Rightarrow> (nat \<Rightarrow> env \<Rightarrow> 'a outcome) \<Rightarrow> 'a outcome" where
  "waitForTransactionReceipt h s e k = request (WaitForTransactionReceipt h) s e (\<lambda>r. k (number_of r))"

definition parsed :: "string \<Rightarrow> nat \<Rightarrow> session \<Rightarrow> env \<Rightarrow> (int \<Rightarrow> env \<Rightarrow> 'a outcome) \<Rightarrow> 'a outcome" where
  "parsed amount decimals s e k =
     (case parseAmount amount decimals of Inl err \<Rightarrow> Throw s e | Inr n \<Rightarrow> k n e)"

section \<open>Token operations\<close>

text \<open>
  The operations of \<^verbatim>\<open>index.ts\<close>, lines 166-604, statement by statement.
  \<^verbatim>\<open>!tokenAddress\<close> holds only for \<open>None\<close>: \<open>toHexAddress\<close> never returns the empty
  string. The error object printed by \<^verbatim>\<open>console.error\<close> is not part of the message.
\<close>

definition showTokenDetails :: "session \<Rightarrow> env \<Rightarrow> bool outcome" where
  "showTokenDetails s e =
     (case tokenAddress s of
        None \<Rightarrow> Menu s (console_log ''No token connected. Please connect to a token first.'' e)
      | Some token \<Rightarrow>
          and_then (try_catch
            (promise_all
               [ReadContract token ''name'' [], ReadContract token ''symbol'' [],
                ReadContract token ''decimals'' [], ReadContract token ''totalSupply'' []] s e (\<lambda>rs e.
             case rs of
               [tokenName, tokenSymbol, decimals, totalSupply] \<Rightarrow>
                 (let e = console_log ''Token Details:'' e;
                      e = console_log (''Name: '' @ text_of tokenName) e;
                      e = console_log (''Symbol: '' @ text_of tokenSymbol) e;
                      e = console_log (''Decimals: '' @ digits_of_nat (number_of decimals)) e;
                      e = console_log (''Total Supply: '' @
                            formatAmount (int (number_of totalSupply)) (number_of decimals)) e;
                      e = console_log (''Contract Address: '' @ token) e
                  in readContract token ''balanceOf'' [Addr (userAddress s)] s e (\<lambda>balance e.
                     Return () s (console_log (''Your balance: '' @
                       formatAmount (int (number_of balance)) (number_of decimals)) e)))
             | _ \<Rightarrow> Throw s e))
            (\<lambda>s e. Return () (s\<lparr>tokenAddress := None\<rparr>)
                      (console_error ''Error fetching token details:'' e)))
            (\<lambda>x s e. Return (tokenAddress s \<noteq> None) s e))"

definition createToken :: "session \<Rightarrow> env \<Rightarrow> unit outcome" where
  "createToken s e =
     then_menu (try_catch
       (question ''Enter token name: '' s e (\<lambda>name e.
        question ''Enter token symbol: '' s e (\<lambda>symbol e.
        question (''Enter initial owner address (default: '' @ userAddress s @ ''): '') s e (\<lambda>initialOwnerInput e.
        let initialOwner =
              (if initialOwnerInput \<noteq> [] then toHexAddress initialOwnerInput else userAddress s);
            e = console_log (''Creating token '' @ name @ '' ('' @ symbol @ '')...'') e
        in writeContract (toHexAddress (tokenFactoryAddress (config s))) ''createToken''
             [Str name, Str symbol, Addr initialOwner] s e (\<lambda>hash e.
        let e = console_log (''Transaction sent: '' @ hash) e;
            e = console_log ''Waiting for transaction confirmation...'' e
        in waitForTransactionReceipt hash s e (\<lambda>blockNumber e.
        request (GetLogs (toHexAddress (tokenFactoryAddress (config s))) blockNumber blockNumber) s e (\<lambda>logs e.
        case logs_of logs of
          TokenCreated (Some a) owner # rest \<Rightarrow>
            (if a \<noteq> [] then
               (let s = s\<lparr>tokenAddress := Some a\<rparr>;
                    e = console_log (''Token created successfully at address: '' @ a) e
                in and_then (showTokenDetails s e) (\<lambda>x s e. Return () s e))
             else Return () s
               (console_log ''Token creation event not found in the transaction receipt'' e))
        | _ \<Rightarrow> Return () s
               (console_log ''Token creation event not found in the transaction receipt'' e))))))))
       (\<lambda>s e. Return () s (console_error ''Error creating token:'' e)))"

definition connectToToken :: "session \<Rightarrow> env \<Rightarrow> bool outcome" where
  "connectToToken s e =
     try_catch
       (question ''Enter token address: '' s e (\<lambda>addressInput e.
        let s = s\<lparr>tokenAddress := Some (toHexAddress addressInput)\<rparr>
        in and_then (showTokenDetails s e) (\<lambda>x s e. Return True s e)))
       (\<lambda>s e. Return False (s\<lparr>tokenAddress := None\<rparr>)
                 (console_error ''Error connecting to token:'' e))"

definition mintTokens :: "session \<Rightarrow> env \<Rightarrow> unit outcome" where
  "mintTokens s e =
     (case tokenAddress s of
        None \<Rightarrow> Menu s (console_log ''No token connected. Please connect to a token first.'' e)
      | Some token \<Rightarrow>
          then_menu (try_catch
            (question (''Enter recipient address (default: '' @ userAddress s @ ''): '') s e (\<lambda>recipientInput e.
             let recipient =
                   (if recipientInput \<noteq> [] then toHexAddress recipientInput else userAddress s)
             in question ''Enter amount to mint: '' s e (\<lambda>amount e.
             readContract token ''decimals'' [] s e (\<lambda>decimals e.
             parsed amount (number_of decimals) s e (\<lambda>amountInWei e.
             let e = console_log (''Minting '' @ amount @ '' tokens to '' @ recipient @ ''...'') e
             in writeContract token ''mint'' [Addr recipient, Uint amountInWei] s e (\<lambda>hash e.
             let e = console_log (''Transaction sent: '' @ hash) e;
                 e = console_log ''Waiting for transaction confirmation...'' e
             in waitForTransactionReceipt hash s e (\<lambda>receipt e.
             let e = console_log ''Tokens minted successfully!'' e
             in readContract token ''balanceOf'' [Addr recipient] s e (\<lambda>balance e.
             Return () s (console_log (''New balance of '' @ recipient @ '': '' @
               formatAmount (int (number_of balance)) (number_of decimals)) e)))))))))
            (\<lambda>s e. Return () s (console_error ''Error minting tokens:'' e))))"

definition burnTokens :: "session \<Rightarrow> env \<Rightarrow> unit outcome" where
  "burnTokens s e =
     (case tokenAddress s of
        None \<Rightarrow> Menu s (console_log ''No token connected. Please connect to a token first.'' e)
      | Some token \<Rightarrow>
          then_menu (try_catch
            (question ''Enter amount to burn: '' s e (\<lambda>amount e.
             readContract token ''decimals'' [] s e (\<lambda>decimals e.
             parsed amount (number_of decimals) s e (\<lambda>amountInWei e.
             let e = console_log (''Burning '' @ amount @ '' tokens...'') e
             in writeContract token ''burn'' [Uint amountInWei] s e (\<lambda>hash e.
             let e = console_log (''Transaction sent: '' @ hash) e;
                 e = console_log ''Waiting for transaction confirmation...'' e
             in waitForTransactionReceipt hash s e (\<lambda>receipt e.
             let e = console_log ''Tokens burned successfully!'' e
             in readContract token ''balanceOf'' [Addr (userAddress s)] s e (\<lambda>balance e.
             Return () s (console_log (''New balance: '' @
               formatAmount (int (number_of balance)) (number_of decimals)) e))))))))
            (\<lambda>s e. Return () s (console_error ''Error burning tokens:'' e))))"

definition transferTokens :: "session \<Rightarrow> env \<Rightarrow> unit outcome" where
  "transferTokens s e =
     (case tokenAddress s of
        None \<Rightarrow> Menu s (console_log ''No token connected. Please connect to a token first.'' e)
      | Some token \<Rightarrow>
          then_menu (try_catch
            (question ''Enter recipient address: '' s e (\<lambda>recipientInput e.
             let recipient = toHexAddress recipientInput
             in question ''Enter amount to transfer: '' s e (\<lambda>amount e.
             readContract token ''decimals'' [] s e (\<lambda>decimals e.
             parsed amount (number_of decimals) s e (\<lambda>amountInWei e.
             let e = console_log (''Transferring '' @ amount @ '' tokens to '' @ recipient @ ''...'') e
             in writeContract token ''transfer'' [Addr recipient, Uint amountInWei] s e (\<lambda>hash e.
             let e = console_log (''Transaction sent: '' @ hash) e;
                 e = console_log ''Waiting for transaction confirmation...'' e
             in waitForTransactionReceipt hash s e (\<lambda>receipt e.
             let e = console_log ''Tokens transferred successfully!'' e
             in readContract token ''balanceOf'' [Addr (userAddress s)] s e (\<lambda>balance e.
             Return () s (console_log (''New balance: '' @
               formatAmount (int (number_of balance)) (number_of decimals)) e)))))))))
            (\<lambda>s e. Return () s (console_error ''Error transferring tokens:'' e))))"

definition approveTokens :: "session \<Rightarrow> env \<Rightarrow> unit outcome" where
  "approveTokens s e =
     (case tokenAddress s of
        None \<Rightarrow> Menu s (console_log ''No token connected. Please connect to a token first.'' e)
      | Some token \<Rightarrow>
          then_menu (try_catch
            (question ''Enter spender address: '' s e (\<lambda>spenderInput e.
             let spender = toHexAddress spenderInput
             in question ''Enter amount to approve: '' s e (\<lambda>amount e.
             readContract token ''decimals'' [] s e (\<lambda>decimals e.
             parsed amount (number_of decimals) s e (\<lambda>amountInWei e.
             let e = console_log (''Approving '' @ amount @ '' tokens for '' @ spender @ ''...'') e
             in writeContract token ''approve'' [Addr spender, Uint amountInWei] s e (\<lambda>hash e.
             let e = console_log (''Transaction sent: '' @ hash) e;
                 e = console_log ''Waiting for transaction confirmation...'' e
             in waitForTransactionReceipt hash s e (\<lambda>receipt e.
             let e = console_log ''Tokens approved successfully!'' e
             in readContract token ''allowance'' [Addr (userAddress s), Addr spender] s e (\<lambda>allowance e.
             Return () s (console_log (''New allowance for '' @ spender @ '': '' @
               formatAmount (int (number_of allowance)) (number_of decimals)) e)))))))))
            (\<lambda>s e. Return () s (console_error ''Error approving tokens:'' e))))"

definition transferFromTokens :: "session \<Rightarrow> env \<Rightarrow> unit outcome" where
  "transferFromTokens s e =
     (case tokenAddress s of
        None \<Rightarrow> Menu s (console_log ''No token connected. Please connect to a token first.'' e)
      | Some token \<Rightarrow>
          then_menu (try_catch
            (question ''Enter sender address: '' s e (\<lambda>senderInput e.
             let sender = toHexAddress senderInput
             in question ''Enter recipient address: '' s e (\<lambda>recipientInput e.
             let recipient = toHexAddress recipientInput
             in question ''Enter amount to transfer: '' s e (\<lambda>amount e.
             readContract token ''decimals'' [] s e (\<lambda>decimals e.
             parsed amount (number_of decimals) s e (\<lambda>amountInWei e.
             readContract token ''allowance'' [Addr sender, Addr (userAddress s)] s e (\<lambda>allowance e.
             if int (number_of allowance) < amountInWei then
               Menu s (console_log (''Insufficient allowance. Current allowance: '' @
                 formatAmount (int (number_of allowance)) (number_of decimals)) e)
             else
             let e = console_log (''Transferring '' @ amount @ '' tokens from '' @ sender @
                       '' to '' @ recipient @ ''...'') e
             in writeContract token ''transferFrom''
                  [Addr sender, Addr recipient, Uint amountInWei] s e (\<lambda>hash e.
             let e = console_log (''Transaction sent: '' @ hash) e;
                 e = console_log ''Waiting for transaction confirmation...'' e
             in waitForTransactionReceipt hash s e (\<lambda>receipt e.
             let e = console_log ''Tokens transferred successfully!'' e
             in readContract token ''balanceOf'' [Addr recipient] s e (\<lambda>recipientBalance e.
             let e = console_log (''New balance of '' @ recipient @ '': '' @
                       formatAmount (int (number_of recipientBalance)) (number_of decimals)) e
             in readContract token ''allowance'' [Addr sender, Addr (userAddress s)] s e (\<lambda>newAllowance e.
             Return () s (console_log (''Remaining allowance: '' @
               formatAmount (int (number_of newAllowance)) (number_of decimals)) e))))))))))))
            (\<lambda>s e. Return () s (console_error ''Error transferring tokens:'' e))))"

definition checkBalance :: "session \<Rightarrow> env \<Rightarrow> unit outcome" where
  "checkBalance s e =
     (case tokenAddress s of
        None \<Rightarrow> Menu s (console_log ''No token connected. Please connect to a token first.'' e)
      | Some token \<Rightarrow>
          then_menu (try_catch
            (question (''Enter address to check (default: '' @ userAddress s @ ''): '') s e (\<lambda>addressInput e.
             let address = (if addressInput \<noteq> [] then toHexAddress addressInput else userAddress s)
             in readContract token ''decimals'' [] s e (\<lambda>decimals e.
             readContract token ''balanceOf'' [Addr address] s e (\<lambda>balance e.
             Return () s (console_log (''Balance of '' @ address @ '': '' @
               formatAmount (int (number_of balance)) (number_of decimals)) e)))))
            (\<lambda>s e. Return () s (console_error ''Error checking balance:'' e))))"

section \<open>Account management\<close>

text \<open>
  The signer capability \<^verbatim>\<open>privateKeyToAccount\<close> belongs to the chain client library. It is
  taken as a parameter \<open>derive\<close>: the address a private key determines, or \<open>None\<close> where
  the library throws on a key it cannot use.
\<close>

definition privateKeyToAccount :: "(string \<Rightarrow> address option) \<Rightarrow> string \<Rightarrow> LocalAccount option" where
  "privateKeyToAccount derive key =
     map_option (\<lambda>a. \<lparr>LocalAccount.address = a, source = key\<rparr>) (derive key)"

definition createWalletClient :: "LocalAccount \<Rightarrow> Config \<Rightarrow> WalletClient" where
  "createWalletClient acc c =
     \<lparr>transport = rpcUrl c, chain = chainId c, WalletClient.account = acc\<rparr>"

definition createPublicClient :: "Config \<Rightarrow> PublicClient" where
  "createPublicClient c = \<lparr>transport = rpcUrl c, chain = chainId c\<rparr>"

definition generateRandomPrivateKey :: "env \<Rightarrow> string \<times> env" where
  "generateRandomPrivateKey e = (''0x'' @ entropy e (drawn e), e\<lparr>drawn := Suc (drawn e)\<rparr>)"

fun account_lines :: "nat \<Rightarrow> nat \<Rightarrow> AccountInfo list \<Rightarrow> string list" where
  "account_lines cur index [] = []"
| "account_lines cur index (acc # rest) =
     (digits_of_nat (index + 1) @ ''. '' @ name acc @ '' ('' @ AccountInfo.address acc @ '')'' @
        (if index = cur then '' (Current)'' else [])) #
     account_lines cur (Suc index) rest"

lemma question_cong [fundef_cong]:
  assumes "q = q'" "s = s'" "e = e'"
    and "\<And>l ls. stdin e' = l # ls \<Longrightarrow>
           k l ((emit (Question q') e')\<lparr>stdin := ls\<rparr>) = k' l ((emit (Question q') e')\<lparr>stdin := ls\<rparr>)"
  shows "question q s e k = question q' s' e' k'"
  using assms by (simp add: question_def split: list.splits)

function createNewAccount :: "(string \<Rightarrow> address option) \<Rightarrow> session \<Rightarrow> env \<Rightarrow> unit outcome"
  and switchAccount :: "(string \<Rightarrow> address option) \<Rightarrow> session \<Rightarrow> env \<Rightarrow> unit outcome" where
  "createNewAccount derive s e =
     then_menu (try_catch
       (question ''Enter a name for this account: '' s e (\<lambda>name e.
        let (privateKey, e) = generateRandomPrivateKey e in
        case privateKeyToAccount derive privateKey of
          None \<Rightarrow> Throw s e
        | Some newAccount \<Rightarrow>
            (let accountInfo = \<lparr>name = name, AccountInfo.privateKey = privateKey,
                   AccountInfo.account = newAccount,
                   AccountInfo.address = LocalAccount.address newAccount\<rparr>;
                 s = s\<lparr>accounts := accounts s @ [accountInfo]\<rparr>;
                 e = console_log (''New account created: '' @ name) e;
                 e = console_log (''Address: '' @ AccountInfo.address accountInfo) e;
                 e = console_log (''Private Key: '' @ privateKey @ '' (Keep this secure!)'') e
             in question ''Switch to this account? (y/n): '' s e (\<lambda>switchToNew e.
                if toLowerCase switchToNew = ''y'' then
                  (let s = s\<lparr>currentAccountIndex := length (accounts s) - 1\<rparr>
                   in switchAccount derive s e)
                else Return () s e))))
       (\<lambda>s e. Return () s (console_error ''Error creating new account:'' e)))"
| "switchAccount derive s e =
     and_then (try_catch
       (if accounts s = [] then
          (let e = console_log ''No accounts available. Please create an account first.'' e
           in and_then (createNewAccount derive s e) (\<lambda>x s e. Return True s e))
        else
          (let e = console_log ([CHR 0x0A] @ ''Available Accounts:'') e;
               e = console_lines (account_lines (currentAccountIndex s) 0 (accounts s)) e
           in question ''Select account number (or 'c' to create new): '' s e (\<lambda>choice e.
              if toLowerCase choice = ''c'' then
                and_then (createNewAccount derive s e) (\<lambda>x s e. Return True s e)
              else
                (case parseInt choice of
                   None \<Rightarrow> Return False s (console_log ''Invalid selection. Please try again.'' e)
                 | Some n \<Rightarrow>
                     (let selectedIndex = n - 1 in
                      if selectedIndex \<ge> 0 \<and> selectedIndex < int (length (accounts s)) then
                        (let s = s\<lparr>currentAccountIndex := nat selectedIndex\<rparr>;
                             s = s\<lparr>session.account :=
                                   AccountInfo.account (accounts s ! currentAccountIndex s)\<rparr>;
                             s = s\<lparr>userAddress := LocalAccount.address (session.account s)\<rparr>;
                             s = s\<lparr>walletClient := createWalletClient (session.account s) (config s)\<rparr>;
                             e = console_log (''Switched to account: '' @
                                   name (accounts s ! currentAccountIndex s)) e;
                             e = console_log (''Address: '' @ userAddress s) e
                         in request (GetBalance (userAddress s)) s e (\<lambda>balance e.
                            Return False s (console_log (''Account balance: '' @
                              formatAmount (int (number_of balance)) 18 @ '' ETH'') e)))
                      else Return False s
                             (console_log ''Invalid selection. Please try again.'' e))))))
       (\<lambda>s e. Return False s (console_error ''Error switching account:'' e)))
       (\<lambda>early s e. if early then Return () s e else Menu s e)"
  by pat_completeness auto
termination
  apply (relation "measure (\<lambda>x. case x of
           Inl (d, s, e) \<Rightarrow> 2 * length (stdin e)
         | Inr (d, s, e) \<Rightarrow> 2 * length (stdin e) + 1)")
  apply (auto simp: generateRandomPrivateKey_def)
  done

definition importAccount :: "(string \<Rightarrow> address option) \<Rightarrow> session \<Rightarrow> env \<Rightarrow> unit outcome" where
  "importAccount derive s e =
     then_menu (try_catch
       (question ''Enter a name for this account: '' s e (\<lambda>name e.
        question ''Enter private key: '' s e (\<lambda>privateKey e.
        let privateKey = (if \<not> startsWith privateKey ''0x'' then ''0x'' @ privateKey else privateKey)
        in case privateKeyToAccount derive privateKey of
          None \<Rightarrow> Throw s e
        | Some importedAccount \<Rightarrow>
            (let accountInfo = \<lparr>name = name, AccountInfo.privateKey = privateKey,
                   AccountInfo.account = importedAccount,
                   AccountInfo.address = LocalAccount.address importedAccount\<rparr>;
                 s = s\<lparr>accounts := accounts s @ [accountInfo]\<rparr>;
                 e = console_log (''Account imported: '' @ name) e;
                 e = console_log (''Address: '' @ AccountInfo.address accountInfo) e
             in question ''Switch to this account? (y/n): '' s e (\<lambda>switchToNew e.
                if toLowerCase switchToNew = ''y'' then
                  (let s = s\<lparr>currentAccountIndex := length (accounts s) - 1\<rparr>
                   in switchAccount derive s e)
                else Return () s e)))))
       (\<lambda>s e. Return () s (console_error ''Error importing account:'' e)))"

section \<open>The menu\<close>

text \<open>
  \<open>menu_switch\<close> is the \<^verbatim>\<open>switch\<close> statement of \<^verbatim>\<open>showMainMenu\<close> (lines 628-676).
\<close>

definition menu_switch :: "(string \<Rightarrow> address option) \<Rightarrow> string \<Rightarrow> session \<Rightarrow> env \<Rightarrow> unit outcome" where
  "menu_switch derive choice s e =
     (if choice = ''1'' then createToken s e
      else if choice = ''2'' then and_then (connectToToken s e) (\<lambda>x s e. Menu s e)
      else if choice = ''3'' then mintTokens s e
      else if choice = ''4'' then burnTokens s e
      else if choice = ''5'' then transferTokens s e
      else if choice = ''6'' then approveTokens s e
      else if choice = ''7'' then transferFromTokens s e
      else if choice = ''8'' then checkBalance s e
      else if choice = ''9'' then and_then (showTokenDetails s e) (\<lambda>x s e. Menu s e)
      else if choice = ''10'' then createNewAccount derive s e
      else if choice = ''11'' then importAccount derive s e
      else if choice = ''12'' then switchAccount derive s e
      else if choice = ''0'' then Halt (ProcessExit 0) s (emit Close (console_log ''Goodbye!'' e))
      else Menu s (console_log ''Invalid choice. Please try again.'' e))"

definition menu_text :: "string list" where
  "menu_text =
     [[CHR 0x0A] @ ''=== Token Operations ==='',
      ''1. Create new token'',
      ''2. Connect to existing token'',
      ''3. Mint tokens (owner only)'',
      ''4. Burn tokens (owner only)'',
      ''5. Transfer tokens'',
      ''6. Approve tokens'',
      ''7. Transfer tokens from another account'',
      ''8. Check balance'',
      ''9. Show token details'',
      [CHR 0x0A] @ ''=== Account Management ==='',
      ''10. Create new account'',
      ''11. Import existing account'',
      ''12. Switch account'',
      [CHR 0x0A] @ ''0. Exit'']"

subsection \<open>What an operation leaves behind\<close>

text \<open>
  \<open>holds P r\<close> says that the session and the environment at the end of \<open>r\<close> satisfy
  \<open>P\<close>, however \<open>r\<close> ended. The rules below follow the structure of an operation, one
  rule for each way of continuing.
\<close>

fun outcome_session :: "'a outcome \<Rightarrow> session" where
  "outcome_session (Return x s e) = s"
| "outcome_session (Throw s e) = s"
| "outcome_session (Menu s e) = s"
| "outcome_session (Halt h s e) = s"

fun outcome_env :: "'a outcome \<Rightarrow> env" where
  "outcome_env (Return x s e) = e"
| "outcome_env (Throw s e) = e"
| "outcome_env (Menu s e) = e"
| "outcome_env (Halt h s e) = e"

definition holds :: "(session \<Rightarrow> env \<Rightarrow> bool) \<Rightarrow> 'a outcome \<Rightarrow> bool" where
  "holds P r = P (outcome_session r) (outcome_env r)"

lemma holds_simps [simp]:
  "holds P (Return x s e) = P s e"
  "holds P (Throw s e) = P s e"
  "holds P (Menu s e) = P s e"
  "holds P (Halt h s e) = P s e"
  by (simp_all add: holds_def)

lemma holds_question:
  assumes "P s (emit (Question q) e)"
    and "\<And>l ls. stdin e = l # ls \<Longrightarrow> holds P (k l ((emit (Question q) e)\<lparr>stdin := ls\<rparr>))"
  shows "holds P (question q s e k)"
  using assms by (simp add: question_def split: list.splits)

lemma holds_request:
  assumes "P s (emit (Call c) e)"
    and "\<And>r rs. replies e = r # rs \<Longrightarrow> P s ((emit (Call c) e)\<lparr>replies := rs\<rparr>)"
    and "\<And>r rs. replies e = r # rs \<Longrightarrow> expected c r \<Longrightarrow>
           holds P (k r ((emit (Call c) e)\<lparr>replies := rs\<rparr>))"
  shows "holds P (request c s e k)"
  using assms by (simp add: request_def split: list.splits)

lemma holds_promise_all:
  assumes "P s (e\<lparr>replies := drop (length cs) (replies e), trace := trace e @ map Call cs\<rparr>)"
    and "\<And>rs. holds P (k rs (e\<lparr>replies := drop (length cs) (replies e),
           trace := trace e @ map Call cs\<rparr>))"
  shows "holds P (promise_all cs s e k)"
  using assms unfolding promise_all_def Let_def
  by (simp only: holds_simps split: if_split) blast

lemma holds_parsed:
  assumes "P s e" and "\<And>n. holds P (k n e)"
  shows "holds P (parsed a d s e k)"
  using assms by (simp add: parsed_def split: sum.splits)

lemma holds_try_catch:
  assumes "holds P r" and "\<And>s e. P s e \<Longrightarrow> holds P (h s e)"
  shows "holds P (try_catch r h)"
  using assms by (cases r) (simp_all add: try_catch_def)

lemma holds_and_then:
  assumes "holds P r" and "\<And>x s e. P s e \<Longrightarrow> holds P (k x s e)"
  shows "holds P (and_then r k)"
  using assms by (cases r) (simp_all add: and_then_def)

lemmas holds_intros =
  holds_question holds_request holds_promise_all holds_parsed holds_try_catch holds_and_then

declare createNewAccount.simps [simp del] switchAccount.simps [simp del]

subsection \<open>Well-formed sessions\<close>

text \<open>
  \<open>identity_ok\<close>: the stored address of an identity is the one derived from its stored
  key. \<open>binding_ok\<close>: the current index is in range and the user address and the wallet
  client are those of the signing account, which is an account of the registry.
  \<open>kept derive s0 n\<close> relates a session and environment to an earlier session \<open>s0\<close>: at
  most \<open>n\<close> input lines are left, the registry of \<open>s0\<close> is a prefix of the registry, the
  configuration is the same, and what held of \<open>s0\<close> still holds.
\<close>

definition identity_ok :: "(string \<Rightarrow> address option) \<Rightarrow> AccountInfo \<Rightarrow> bool" where
  "identity_ok derive a =
     (derive (AccountInfo.privateKey a) = Some (AccountInfo.address a) \<and>
      AccountInfo.account a =
        \<lparr>LocalAccount.address = AccountInfo.address a, source = AccountInfo.privateKey a\<rparr>)"

definition registry_ok :: "(string \<Rightarrow> address option) \<Rightarrow> session \<Rightarrow> bool" where
  "registry_ok derive s = list_all (identity_ok derive) (accounts s)"

definition binding_ok :: "session \<Rightarrow> bool" where
  "binding_ok s =
     (currentAccountIndex s < length (accounts s) \<and>
      userAddress s = LocalAccount.address (session.account s) \<and>
      walletClient s = createWalletClient (session.account s) (config s) \<and>
      session.account s \<in> set (map AccountInfo.account (accounts s)))"

definition kept :: "(string \<Rightarrow> address option) \<Rightarrow> session \<Rightarrow> nat \<Rightarrow> session \<Rightarrow> env \<Rightarrow> bool" where
  "kept derive s0 n s e =
     (length (stdin e) \<le> n \<and> prefix (accounts s0) (accounts s) \<and> config s = config s0 \<and>
      (registry_ok derive s0 \<longrightarrow> registry_ok derive s) \<and>
      (binding_ok s0 \<longrightarrow> binding_ok s))"

lemma kept_start: "length (stdin e) \<le> n \<Longrightarrow> kept derive s n s e"
  by (simp add: kept_def)

lemma kept_env [simp]:
  "kept derive s0 n s (emit ev e) = kept derive s0 n s e"
  "kept derive s0 n s (console_log m e) = kept derive s0 n s e"
  "kept derive s0 n s (console_error m e) = kept derive s0 n s e"
  "kept derive s0 n s (e\<lparr>replies := rs\<rparr>) = kept derive s0 n s e"
  "kept derive s0 n s (e\<lparr>trace := tr\<rparr>) = kept derive s0 n s e"
  "kept derive s0 n s (e\<lparr>drawn := d\<rparr>) = kept derive s0 n s e"
  "kept derive s0 n s (console_lines ms e) = kept derive s0 n s e"
  by (simp_all add: kept_def)

lemma kept_stdin:
  "kept derive s0 n s e \<Longrightarrow> stdin e = l # ls \<Longrightarrow> kept derive s0 n s (e\<lparr>stdin := ls\<rparr>)"
  by (simp add: kept_def)

lemma kept_tokenAddress [simp]:
  "kept derive s0 n (s\<lparr>tokenAddress := t\<rparr>) e = kept derive s0 n s e"
  by (simp add: kept_def registry_ok_def binding_ok_def)

lemma kept_push:
  assumes "kept derive s0 n s e" and "privateKeyToAccount derive key = Some acc"
  shows "kept derive s0 n
           (s\<lparr>accounts := accounts s @ [\<lparr>name = nm, AccountInfo.privateKey = key,
                 AccountInfo.account = acc,
                 AccountInfo.address = LocalAccount.address acc\<rparr>]\<rparr>) e"
  using assms
  by (auto simp: kept_def registry_ok_def binding_ok_def identity_ok_def
      privateKeyToAccount_def prefix_def)

lemma kept_select:
  assumes "kept derive s0 n s e" and "i < length (accounts s)"
  shows "kept derive s0 n
           (s\<lparr>currentAccountIndex := i,
               session.account := AccountInfo.account (accounts s ! i),
               userAddress := LocalAccount.address (AccountInfo.account (accounts s ! i)),
               walletClient := createWalletClient (AccountInfo.account (accounts s ! i)) (config s)\<rparr>) e"
  using assms
  by (auto simp: kept_def registry_ok_def binding_ok_def)

lemma kept_mono: "kept derive s0 m s e \<Longrightarrow> m \<le> n \<Longrightarrow> kept derive s0 n s e"
  by (simp add: kept_def)

lemma holds_kept_mono:
  "holds (kept derive s0 m) r \<Longrightarrow> m \<le> n \<Longrightarrow> holds (kept derive s0 n) r"
  by (cases r) (auto intro: kept_mono)

lemma kept_question:
  assumes "kept derive s0 n s e"
    and "\<And>l e'. 0 < n \<Longrightarrow> kept derive s0 (n - 1) s e' \<Longrightarrow> kept derive s0 n s e' \<Longrightarrow>
           holds (kept derive s0 n) (k l e')"
  shows "holds (kept derive s0 n) (question q s e k)"
proof (cases "stdin e")
  case Nil
  with assms(1) show ?thesis by (simp add: question_def)
next
  case (Cons l ls)
  let ?e = "(emit (Question q) e)\<lparr>stdin := ls\<rparr>"
  from Cons assms(1) have "0 < n" "kept derive s0 (n - 1) s ?e" "kept derive s0 n s ?e"
    by (auto simp: kept_def)
  then have "holds (kept derive s0 n) (k l ?e)"
    by (rule assms(2))
  with Cons show ?thesis by (simp add: question_def)
qed

lemma kept_index:
  "kept derive s0 n s e \<Longrightarrow> i < length (accounts s) \<Longrightarrow>
   kept derive s0 n (s\<lparr>currentAccountIndex := i\<rparr>) e"
  by (auto simp: kept_def registry_ok_def binding_ok_def)

lemma kept_request:
  assumes "kept derive s0 n s e"
    and "\<And>r e'. kept derive s0 n s e' \<Longrightarrow> holds (kept derive s0 n) (k r e')"
  shows "holds (kept derive s0 n) (request c s e k)"
  using assms by (auto simp: request_def split: list.splits)

lemma kept_promise_all:
  assumes "kept derive s0 n s e"
    and "\<And>rs e'. kept derive s0 n s e' \<Longrightarrow> holds (kept derive s0 n) (k rs e')"
  shows "holds (kept derive s0 n) (promise_all cs s e k)"
  using assms by (auto simp: promise_all_def Let_def)

lemma kept_parsed:
  assumes "kept derive s0 n s e"
    and "\<And>x. holds (kept derive s0 n) (k x e)"
  shows "holds (kept derive s0 n) (parsed a d s e k)"
  using assms by (auto simp: parsed_def split: sum.splits)

lemmas kept_intros =
  kept_question kept_request kept_promise_all kept_parsed holds_try_catch holds_and_then

lemma kept_showTokenDetails:
  "kept derive s0 n s e \<Longrightarrow> holds (kept derive s0 n) (showTokenDetails s e)"
  unfolding showTokenDetails_def readContract_def
  by (auto simp: Let_def intro!: kept_intros split: option.splits list.splits)

lemma kept_createToken:
  "kept derive s0 n s e \<Longrightarrow> holds (kept derive s0 n) (createToken s e)"
  unfolding createToken_def writeContract_def waitForTransactionReceipt_def then_menu_def
  by (auto simp: Let_def intro!: kept_intros kept_showTokenDetails
      split: option.splits list.splits log.splits)

lemma kept_connectToToken:
  "kept derive s0 n s e \<Longrightarrow> holds (kept derive s0 n) (connectToToken s e)"
  unfolding connectToToken_def
  by (auto simp: Let_def intro!: kept_intros kept_showTokenDetails)

lemma kept_mintTokens:
  "kept derive s0 n s e \<Longrightarrow> holds (kept derive s0 n) (mintTokens s e)"
  unfolding mintTokens_def readContract_def writeContract_def
    waitForTransactionReceipt_def then_menu_def
  by (auto simp: Let_def intro!: kept_intros split: option.splits)

lemma kept_burnTokens:
  "kept derive s0 n s e \<Longrightarrow> holds (kept derive s0 n) (burnTokens s e)"
  unfolding burnTokens_def readContract_def writeContract_def
    waitForTransactionReceipt_def then_menu_def
  by (auto simp: Let_def intro!: kept_intros split: option.splits)

lemma kept_transferTokens:
  "kept derive s0 n s e \<Longrightarrow> holds (kept derive s0 n) (transferTokens s e)"
  unfolding transferTokens_def readContract_def writeContract_def
    waitForTransactionReceipt_def then_menu_def
  by (auto simp: Let_def intro!: kept_intros split: option.splits)

lemma kept_approveTokens:
  "kept derive s0 n s e \<Longrightarrow> holds (kept derive s0 n) (approveTokens s e)"
  unfolding approveTokens_def readContract_def writeContract_def
    waitForTransactionReceipt_def then_menu_def
  by (auto simp: Let_def intro!: kept_intros split: option.splits)

lemma kept_transferFromTokens:
  "kept derive s0 n s e \<Longrightarrow> holds (kept derive s0 n) (transferFromTokens s e)"
  unfolding transferFromTokens_def readContract_def writeContract_def
    waitForTransactionReceipt_def then_menu_def
  by (auto simp: Let_def intro!: kept_intros split: option.splits)

lemma kept_checkBalance:
  "kept derive s0 n s e \<Longrightarrow> holds (kept derive s0 n) (checkBalance s e)"
  unfolding checkBalance_def readContract_def then_menu_def
  by (auto simp: Let_def intro!: kept_intros split: option.splits)

lemma holds_if:
  "(c \<Longrightarrow> holds P a) \<Longrightarrow> (\<not> c \<Longrightarrow> holds P b) \<Longrightarrow> holds P (if c then a else b)"
  by simp

lemma holds_case_option:
  "(x = None \<Longrightarrow> holds P a) \<Longrightarrow> (\<And>y. x = Some y \<Longrightarrow> holds P (b y)) \<Longrightarrow>
   holds P (case x of None \<Rightarrow> a | Some y \<Rightarrow> b y)"
  by (cases x) simp_all

lemma holds_case_prod:
  "(\<And>a b. p = (a, b) \<Longrightarrow> holds P (f a b)) \<Longrightarrow> holds P (case p of (a, b) \<Rightarrow> f a b)"
  by (cases p) simp

lemmas kept_vcg = kept_question kept_request kept_promise_all kept_parsed holds_try_catch
  holds_and_then holds_if holds_case_option holds_case_prod

lemma create_step:
  assumes later: "\<And>s e i. 0 < n \<Longrightarrow> kept derive s0 (n - 1) s e \<Longrightarrow> i < length (accounts s) \<Longrightarrow>
      holds (kept derive s0 n) (switchAccount derive (s\<lparr>currentAccountIndex := i\<rparr>) e)"
    and start: "kept derive s0 n s e"
  shows "holds (kept derive s0 n) (createNewAccount derive s e)"
  apply (subst createNewAccount.simps)
  unfolding then_menu_def Let_def
  apply (intro kept_vcg later)
  using start
              apply (auto simp: generateRandomPrivateKey_def intro: kept_push)
  done

lemma switch_step:
  assumes create: "\<And>s e. kept derive s0 n s e \<Longrightarrow>
      holds (kept derive s0 n) (createNewAccount derive s e)"
    and start: "kept derive s0 n s e"
  shows "holds (kept derive s0 n) (switchAccount derive s e)"
  apply (subst switchAccount.simps)
  unfolding Let_def
  apply (intro kept_vcg create)
  using start
                apply (auto simp: nat_less_iff intro: kept_select)
  done

lemma kept_account_dialogues:
  "(\<forall>s e. kept derive s0 n s e \<longrightarrow> holds (kept derive s0 n) (createNewAccount derive s e)) \<and>
   (\<forall>s e. kept derive s0 n s e \<longrightarrow> holds (kept derive s0 n) (switchAccount derive s e))"
proof (induction n rule: less_induct)
  case (less n)
  have later: "holds (kept derive s0 n) (switchAccount derive (s\<lparr>currentAccountIndex := i\<rparr>) e)"
    if "0 < n" "kept derive s0 (n - 1) s e" "i < length (accounts s)" for s e i
  proof -
    from that(1) have "n - 1 < n" by simp
    from less [OF this] kept_index [OF that(2,3)]
    have "holds (kept derive s0 (n - 1)) (switchAccount derive (s\<lparr>currentAccountIndex := i\<rparr>) e)"
      by blast
    then show ?thesis
      by (rule holds_kept_mono) simp
  qed
  have create: "holds (kept derive s0 n) (createNewAccount derive s e)"
    if "kept derive s0 n s e" for s e
    using later that by (rule create_step)
  have switch: "holds (kept derive s0 n) (switchAccount derive s e)"
    if "kept derive s0 n s e" for s e
    using create that by (rule switch_step)
  from create switch show ?case by blast
qed

lemma kept_createNewAccount:
  "kept derive s0 n s e \<Longrightarrow> holds (kept derive s0 n) (createNewAccount derive s e)"
  using kept_account_dialogues by blast

lemma kept_switchAccount:
  "kept derive s0 n s e \<Longrightarrow> holds (kept derive s0 n) (switchAccount derive s e)"
  using kept_account_dialogues by blast

lemma kept_importAccount:
  assumes "kept derive s0 n s e"
  shows "holds (kept derive s0 n) (importAccount derive s e)"
  unfolding importAccount_def then_menu_def Let_def
  apply (intro kept_vcg kept_switchAccount)
  using assms
              apply (auto intro: kept_push kept_index)
  done

lemma kept_menu_switch:
  assumes "kept derive s0 n s e"
  shows "holds (kept derive s0 n) (menu_switch derive choice s e)"
  unfolding menu_switch_def
  apply (intro holds_if holds_and_then kept_createToken kept_connectToToken kept_mintTokens
      kept_burnTokens kept_transferTokens kept_approveTokens kept_transferFromTokens
      kept_checkBalance kept_showTokenDetails kept_createNewAccount kept_importAccount
      kept_switchAccount)
  using assms
                      apply simp_all
  done

lemma stdin_menu_switch:
  assumes "menu_switch derive choice s e = Menu s' e'"
  shows "length (stdin e') \<le> length (stdin e)"
proof -
  have "holds (kept derive s (length (stdin e))) (menu_switch derive choice s e)"
    by (rule kept_menu_switch) (simp add: kept_start)
  with assms show ?thesis
    by (simp add: kept_def)
qed

text \<open>
  \<^verbatim>\<open>showMainMenu\<close> (lines 607-677). Reading \<^verbatim>\<open>accounts[currentAccountIndex].name\<close>
  throws when the index is out of range; in a session with \<open>binding_ok\<close> it is in range.
  Each round consumes the line of the choice, so the menu ends when the input does.
\<close>

function showMainMenu :: "(string \<Rightarrow> address option) \<Rightarrow> session \<Rightarrow> env \<Rightarrow> unit outcome" where
  "showMainMenu derive s e =
     (let e = console_log ([CHR 0x0A] @ ''=== RWA Token Manager ==='') e in
      if currentAccountIndex s < length (accounts s) then
        (let e = console_log (''Current Account: '' @ name (accounts s ! currentAccountIndex s) @
                   '' ('' @ AccountInfo.address (accounts s ! currentAccountIndex s) @ '')'') e;
             e = console_lines menu_text e
         in question ''Enter your choice: '' s e (\<lambda>choice e.
            case menu_switch derive choice s e of
              Menu s' e' \<Rightarrow> showMainMenu derive s' e'
            | r \<Rightarrow> r))
      else Throw s e)"
  by pat_completeness auto
termination
proof (relation "measure (\<lambda>(derive, s, e). length (stdin e))", goal_cases)
  case 1
  show ?case by simp
next
  case (2 derive s e x xa xb l ls s' e')
  then show ?case
    by (auto dest!: stdin_menu_switch)
qed

section \<open>Start-up\<close>

text \<open>
  \<open>load_config\<close> is the \<^verbatim>\<open>config\<close> object (lines 40-45) read from the process
  environment \<open>penv\<close>; \<^verbatim>\<open>a || b\<close> takes \<open>b\<close> when \<open>a\<close> is undefined or empty.
  \<open>initialize\<close> is lines 105-164: the two prompts of lines 110-119, then \<open>connect\<close>, the
  rest of the function. Before an account exists there is no session to speak of: a run
  that ends there is \<open>Aborted\<close>.
\<close>

datatype run = Aborted halt Config env | Session "unit outcome"

definition or_else :: "string option \<Rightarrow> string \<Rightarrow> string" where
  "or_else v d = (case v of None \<Rightarrow> d | Some x \<Rightarrow> if x = [] then d else x)"

definition load_config :: "(string \<Rightarrow> string option) \<Rightarrow> Config" where
  "load_config penv =
     \<lparr>rpcUrl = or_else (penv ''RPC_URL'') ''http://localhost:8545'',
      chainId = parseInt (or_else (penv ''CHAIN_ID'') ''''),
      tokenFactoryAddress = or_else (penv ''TOKEN_FACTORY_ADDRESS'') '''',
      Config.privateKey = or_else (penv ''PRIVATE_KEY'') ''''\<rparr>"

definition ask_unset :: "string \<Rightarrow> string \<Rightarrow> Config \<Rightarrow> env \<Rightarrow> (string \<Rightarrow> env \<Rightarrow> run) \<Rightarrow> run" where
  "ask_unset v q c e k =
     (if v = [] then
        (case stdin e of
           [] \<Rightarrow> Aborted InputClosed c (emit (Question q) e)
         | l # ls \<Rightarrow> k l ((emit (Question q) e)\<lparr>stdin := ls\<rparr>))
      else k v e)"

definition connect :: "(string \<Rightarrow> address option) \<Rightarrow> Config \<Rightarrow> env \<Rightarrow> run" where
  "connect derive c e =
     (let privateKey = (if \<not> startsWith (Config.privateKey c) ''0x''
                        then ''0x'' @ Config.privateKey c else Config.privateKey c)
      in case privateKeyToAccount derive privateKey of
           None \<Rightarrow> Aborted (ProcessExit 1) c (console_error ''Initialization error:'' e)
         | Some acc \<Rightarrow>
             (let s = \<lparr>config = c, publicClient = createPublicClient c,
                        walletClient = createWalletClient acc c,
                        session.account = acc,
                        userAddress = LocalAccount.address acc,
                        tokenAddress = None,
                        accounts = [\<lparr>name = ''Default Account'',
                           AccountInfo.privateKey = privateKey,
                           AccountInfo.account = acc,
                           AccountInfo.address = LocalAccount.address acc\<rparr>],
                        currentAccountIndex = 0\<rparr>;
                  e = console_log (''Connected with account: '' @ userAddress s) e
              in Session (try_catch
                   (request (GetBalance (userAddress s)) s e (\<lambda>balance e.
                    let e = console_log (''Account balance: '' @
                              formatAmount (int (number_of balance)) 18 @ '' ETH'') e;
                        e = console_log ''Initialization complete!'' e
                    in showMainMenu derive s e))
                   (\<lambda>s e. Halt (ProcessExit 1) s
                             (console_error ''Initialization error:'' e)))))"

definition initialize :: "(string \<Rightarrow> address option) \<Rightarrow> (string \<Rightarrow> string option) \<Rightarrow> env \<Rightarrow> run" where
  "initialize derive penv e =
     (let c = load_config penv;
          e = console_log ''Connecting to blockchain...'' e
      in ask_unset (Config.privateKey c) ''Enter your private key: '' c e (\<lambda>inputPrivateKey e.
         let c = c\<lparr>Config.privateKey := inputPrivateKey\<rparr>
         in ask_unset (tokenFactoryAddress c) ''Enter TokenFactory contract address: '' c e (\<lambda>inputAddress e.
         let c = c\<lparr>tokenFactoryAddress := inputAddress\<rparr>
         in connect derive c e)))"

declare showMainMenu.simps [simp del]

lemma kept_showMainMenu:
  "kept derive s0 n s e \<Longrightarrow> holds (kept derive s0 n) (showMainMenu derive s e)"
proof (induction n arbitrary: s e rule: less_induct)
  case (less n)
  have step: "holds (kept derive s0 n)
      (case menu_switch derive l s e' of Menu s' e' \<Rightarrow> showMainMenu derive s' e' | r \<Rightarrow> r)"
    if "0 < n" "kept derive s0 (n - 1) s e'" for l e'
  proof -
    have sw: "holds (kept derive s0 (n - 1)) (menu_switch derive l s e')"
      using that(2) by (rule kept_menu_switch)
    have "holds (kept derive s0 (n - 1))
        (case menu_switch derive l s e' of Menu s' e' \<Rightarrow> showMainMenu derive s' e' | r \<Rightarrow> r)"
    proof (cases "menu_switch derive l s e'")
      case (Menu s' e'')
      with sw have "kept derive s0 (n - 1) s' e''" by simp
      with that(1) have "holds (kept derive s0 (n - 1)) (showMainMenu derive s' e'')"
        by (intro less.IH) simp_all
      with Menu show ?thesis by simp
    qed (use sw in simp_all)
    then show ?thesis
      by (rule holds_kept_mono) simp
  qed
  show ?case
    apply (subst showMainMenu.simps)
    unfolding Let_def
    apply (intro kept_vcg step)
    using less.prems
         apply simp_all
    done
qed

section \<open>Observing a run\<close>

text \<open>
  \<open>emitted e r\<close> are the effects of a run \<open>r\<close> started in \<open>e\<close>; \<open>submitted\<close> keeps the
  contract writes among them.
\<close>

definition emitted :: "env \<Rightarrow> 'a outcome \<Rightarrow> event list" where
  "emitted e r = drop (length (trace e)) (trace (outcome_env r))"

fun is_write :: "event \<Rightarrow> bool" where
  "is_write (Call (WriteContract w t fn args a)) = True"
| "is_write ev = False"

definition submitted :: "event list \<Rightarrow> event list" where
  "submitted evs = filter is_write evs"

lemmas io_defs = question_def request_def readContract_def writeContract_def
  waitForTransactionReceipt_def parsed_def emit_def console_log_def console_error_def

lemma lower_char_c: "lower_char x = CHR ''c'' \<Longrightarrow> x = CHR ''c'' \<or> x = CHR ''C''"
  by (auto simp: lower_char_def split: if_splits)

lemma parseInt_create_token: "toLowerCase choice = ''c'' \<Longrightarrow> parseInt choice = None"
proof -
  assume "toLowerCase choice = ''c''"
  then obtain x where "choice = [x]" "lower_char x = CHR ''c''"
    by (auto simp: toLowerCase_def)
  with lower_char_c [of x] have "choice = ''c'' \<or> choice = ''C''"
    by auto
  then show ?thesis
    by (auto simp: parseInt_def js_whitespace_def startsWith_def is_digit_def digit_chars_def)
qed

lemma expected_read_number:
  "fn \<noteq> ''name'' \<Longrightarrow> fn \<noteq> ''symbol'' \<Longrightarrow>
   expected (ReadContract t fn args) r = (\<exists>n. r = Number n)"
  by (cases r) auto

lemma expected_write: "expected (WriteContract w t fn args a) r = (\<exists>h. r = TxHash h)"
  by (cases r) auto

lemma expected_receipt: "expected (WaitForTransactionReceipt h) r = (\<exists>b. r = Receipt b)"
  by (cases r) auto

lemma emitted_simps [simp]:
  "emitted e (Return x s e') = drop (length (trace e)) (trace e')"
  "emitted e (Throw s e') = drop (length (trace e)) (trace e')"
  "emitted e (Menu s e') = drop (length (trace e)) (trace e')"
  "emitted e (Halt h s e') = drop (length (trace e)) (trace e')"
  by (simp_all add: emitted_def)

definition wrote :: "event list \<Rightarrow> event list \<Rightarrow> env \<Rightarrow> bool" where
  "wrote tr0 ws e = (\<exists>evs. trace e = tr0 @ evs \<and> submitted evs = ws)"

lemma wrote_emitted:
  "holds (\<lambda>s' e'. wrote (trace e) ws e') r \<Longrightarrow> submitted (emitted e r) = ws"
  by (auto simp: holds_def emitted_def wrote_def)

lemma submitted_simps [simp]:
  "submitted [] = []"
  "submitted (Log m # evs) = submitted evs"
  "submitted (Error m # evs) = submitted evs"
  "submitted (Question q # evs) = submitted evs"
  "submitted (Close # evs) = submitted evs"
  "submitted (Call (ReadContract t fn args) # evs) = submitted evs"
  "submitted (Call (WaitForTransactionReceipt h) # evs) = submitted evs"
  "submitted (Call (GetLogs a f b) # evs) = submitted evs"
  "submitted (Call (GetBalance a) # evs) = submitted evs"
  "submitted (Call (WriteContract w t fn args acc) # evs) =
     Call (WriteContract w t fn args acc) # submitted evs"
  "submitted (xs @ ys) = submitted xs @ submitted ys"
  by (simp_all add: submitted_def)

lemma wrote_start: "wrote (trace e) [] e"
  by (simp add: wrote_def)

lemma wrote_quiet:
  "wrote tr0 ws e \<Longrightarrow> wrote tr0 ws (e\<lparr>stdin := x\<rparr>)"
  "wrote tr0 ws e \<Longrightarrow> wrote tr0 ws (e\<lparr>replies := y\<rparr>)"
  "wrote tr0 ws e \<Longrightarrow> wrote tr0 ws (e\<lparr>drawn := z\<rparr>)"
  "wrote tr0 ws e \<Longrightarrow> wrote tr0 ws (console_log m e)"
  "wrote tr0 ws e \<Longrightarrow> wrote tr0 ws (console_error m e)"
  "wrote tr0 ws e \<Longrightarrow> wrote tr0 ws (console_lines ms e)"
  "wrote tr0 ws e \<Longrightarrow> wrote tr0 ws (emit (Question q) e)"
  "wrote tr0 ws e \<Longrightarrow> wrote tr0 ws (emit (Call (ReadContract t fn args)) e)"
  "wrote tr0 ws e \<Longrightarrow> wrote tr0 ws (emit (Call (WaitForTransactionReceipt h)) e)"
  "wrote tr0 ws e \<Longrightarrow> wrote tr0 ws (emit (Call (GetLogs a f b)) e)"
  "wrote tr0 ws e \<Longrightarrow> wrote tr0 ws (emit (Call (GetBalance a)) e)"
  by (auto simp: wrote_def submitted_def)

lemma wrote_write:
  "wrote tr0 [] e \<Longrightarrow> wrote tr0 [Call (WriteContract w t fn args acc)]
     (emit (Call (WriteContract w t fn args acc)) e)"
  by (auto simp: wrote_def)

lemmas wrote_intros = wrote_quiet wrote_write wrote_start

lemma question_next:
  "stdin e = l # ls \<Longrightarrow> question q s e k = k l ((emit (Question q) e)\<lparr>stdin := ls\<rparr>)"
  by (simp add: question_def)

lemma question_closed:
  "stdin e = [] \<Longrightarrow> question q s e k = Halt InputClosed s (emit (Question q) e)"
  by (simp add: question_def)

lemma request_next:
  "replies e = r # rs \<Longrightarrow> expected c r \<Longrightarrow>
   request c s e k = k r ((emit (Call c) e)\<lparr>replies := rs\<rparr>)"
  by (simp add: request_def)

lemma request_failed:
  "replies e = r # rs \<Longrightarrow> \<not> expected c r \<Longrightarrow>
   request c s e k = Throw s ((emit (Call c) e)\<lparr>replies := rs\<rparr>)"
  by (simp add: request_def)

lemma request_silent:
  "replies e = [] \<Longrightarrow> request c s e k = Halt ChainSilent s (emit (Call c) e)"
  by (simp add: request_def)

lemma parsed_next:
  "parseAmount a d = Inr n \<Longrightarrow> parsed a d s e k = k n e"
  by (simp add: parsed_def)

lemma parsed_failed:
  "parseAmount a d = Inl err \<Longrightarrow> parsed a d s e k = Throw s e"
  by (simp add: parsed_def)

lemmas run_simps = question_next question_closed request_next request_failed request_silent
  parsed_next parsed_failed readContract_def writeContract_def waitForTransactionReceipt_def

definition only_writes :: "event list \<Rightarrow> (event \<Rightarrow> bool) \<Rightarrow> env \<Rightarrow> bool" where
  "only_writes tr0 G e = (\<exists>evs. trace e = tr0 @ evs \<and> (\<forall>w\<in>set (submitted evs). G w))"

lemma only_writes_emitted:
  "holds (\<lambda>s' e'. only_writes (trace e) G e') r \<Longrightarrow> \<forall>w\<in>set (submitted (emitted e r)). G w"
  by (auto simp: holds_def emitted_def only_writes_def)

lemma only_writes_start: "only_writes (trace e) G e"
  by (simp add: only_writes_def)

lemma only_writes_quiet:
  "only_writes tr0 G e \<Longrightarrow> only_writes tr0 G (e\<lparr>stdin := x\<rparr>)"
  "only_writes tr0 G e \<Longrightarrow> only_writes tr0 G (e\<lparr>replies := y\<rparr>)"
  "only_writes tr0 G e \<Longrightarrow> only_writes tr0 G (e\<lparr>drawn := z\<rparr>)"
  "only_writes tr0 G e \<Longrightarrow> only_writes tr0 G (console_log m e)"
  "only_writes tr0 G e \<Longrightarrow> only_writes tr0 G (console_error m e)"
  "only_writes tr0 G e \<Longrightarrow> only_writes tr0 G (console_lines ms e)"
  "only_writes tr0 G e \<Longrightarrow> only_writes tr0 G (emit (Question q) e)"
  "only_writes tr0 G e \<Longrightarrow> only_writes tr0 G (emit (Call (ReadContract t fn args)) e)"
  "only_writes tr0 G e \<Longrightarrow> only_writes tr0 G (emit (Call (WaitForTransactionReceipt h)) e)"
  "only_writes tr0 G e \<Longrightarrow> only_writes tr0 G (emit (Call (GetLogs a f b)) e)"
  "only_writes tr0 G e \<Longrightarrow> only_writes tr0 G (emit (Call (GetBalance a)) e)"
  by (auto simp: only_writes_def submitted_def)

lemma only_writes_write:
  "only_writes tr0 G e \<Longrightarrow> G (Call (WriteContract w t fn args acc)) \<Longrightarrow>
   only_writes tr0 G (emit (Call (WriteContract w t fn args acc)) e)"
  by (auto simp: only_writes_def)

lemma holds_parsed_eq:
  assumes "P s e" and "\<And>n. parseAmount a d = Inr n \<Longrightarrow> holds P (k n e)"
  shows "holds P (parsed a d s e k)"
  using assms by (simp add: parsed_def split: sum.splits)

lemmas holds_vcg = holds_question holds_request holds_promise_all holds_parsed_eq
  holds_try_catch holds_and_then holds_if holds_case_option

section \<open>A sample session\<close>

definition demo_derive :: "string \<Rightarrow> address option" where
  "demo_derive key = (if length key < 3 then None else Some (''0xA'' @ drop 2 key))"

definition demo_config :: Config where
  "demo_config = \<lparr>rpcUrl = ''http://localhost:8545'', chainId = Some 1337,
     tokenFactoryAddress = ''0xF'', Config.privateKey = ''0x1''\<rparr>"

definition demo_account :: LocalAccount where
  "demo_account = \<lparr>LocalAccount.address = ''0xA1'', source = ''0x1''\<rparr>"

definition demo_session :: session where
  "demo_session =
     \<lparr>config = demo_config, publicClient = createPublicClient demo_config,
      walletClient = createWalletClient demo_account demo_config,
      session.account = demo_account, userAddress = ''0xA1'', tokenAddress = None,
      accounts = [\<lparr>name = ''Default Account'', AccountInfo.privateKey = ''0x1'',
         AccountInfo.account = demo_account, AccountInfo.address = ''0xA1''\<rparr>],
      currentAccountIndex = 0\<rparr>"

definition demo_env :: "string list \<Rightarrow> reply list \<Rightarrow> env" where
  "demo_env ins rs = \<lparr>stdin = ins, replies = rs, entropy = (\<lambda>i. ''2''), drawn = 0, trace = []\<rparr>"

lemma demo_env_simps [simp]:
  "stdin (demo_env ins rs) = ins"
  "replies (demo_env ins rs) = rs"
  "drawn (demo_env ins rs) = 0"
  "entropy (demo_env ins rs) i = ''2''"
  "trace (demo_env ins rs) = []"
  by (simp_all add: demo_env_def)

lemma demo_session_simps [simp]:
  "tokenAddress demo_session = None"
  "userAddress demo_session = ''0xA1''"
  "session.account demo_session = demo_account"
  "currentAccountIndex demo_session = 0"
  "length (accounts demo_session) = 1"
  "accounts demo_session \<noteq> []"
  by (simp_all add: demo_session_def)

section \<open>Properties of the operations\<close>

text \<open>
  C9. With no token connected, the balance check and the token details both report that no
  token is connected and hand control to the main menu; the session is unchanged, nothing
  is read from the console or the chain, and the only effect is the one message.
\<close>

theorem no_token_read_only:
  assumes "tokenAddress s = None"
  shows "checkBalance s e =
           Menu s (e\<lparr>trace := trace e @
             [Log ''No token connected. Please connect to a token first.'']\<rparr>) \<and>
         showTokenDetails s e =
           Menu s (e\<lparr>trace := trace e @
             [Log ''No token connected. Please connect to a token first.'']\<rparr>)"
  using assms
  by (simp add: checkBalance_def showTokenDetails_def console_log_def emit_def)

theorem no_token_read_only_witness:
  "tokenAddress demo_session = None \<and>
   checkBalance demo_session (demo_env [''x''] [Number 1]) =
     Menu demo_session ((demo_env [''x''] [Number 1])\<lparr>trace :=
       [Log ''No token connected. Please connect to a token first.'']\<rparr>) \<and>
   showTokenDetails demo_session (demo_env [''x''] [Number 1]) =
     Menu demo_session ((demo_env [''x''] [Number 1])\<lparr>trace :=
       [Log ''No token connected. Please connect to a token first.'']\<rparr>)"
  using no_token_read_only [of demo_session "demo_env [''x''] [Number 1]"]
  by simp

lemma switchAccount_invalid:
  assumes "accounts s \<noteq> []"
    and "stdin e = choice # ins"
    and "parseInt choice = Some n"
    and "n < 1 \<or> int (length (accounts s)) < n"
  shows "switchAccount derive s e =
           Menu s (console_log ''Invalid selection. Please try again.''
             ((emit (Question ''Select account number (or 'c' to create new): '')
                (console_lines (account_lines (currentAccountIndex s) 0 (accounts s))
                   (console_log ([CHR 0x0A] @ ''Available Accounts:'') e)))\<lparr>stdin := ins\<rparr>))"
  using assms parseInt_create_token [of choice]
  by (subst switchAccount.simps) (auto simp: question_next Let_def)

text \<open>
  C3. In the switch-account dialogue, a selection that parses to a number outside
  \<open>1 \<dots> number of identities\<close> leaves the whole session as it was (current index, signing
  account, user address and wallet client), reports the invalid selection, and hands
  control to the main menu.
\<close>

theorem switchAccount_invalid_selection:
  assumes "accounts s \<noteq> []"
    and "stdin e = choice # ins"
    and "parseInt choice = Some n"
    and "n < 1 \<or> int (length (accounts s)) < n"
  shows "switchAccount derive s e =
           Menu s (console_log ''Invalid selection. Please try again.''
             ((emit (Question ''Select account number (or 'c' to create new): '')
                (console_lines (account_lines (currentAccountIndex s) 0 (accounts s))
                   (console_log ([CHR 0x0A] @ ''Available Accounts:'') e)))\<lparr>stdin := ins\<rparr>))"
  using assms by (rule switchAccount_invalid)

lemma parseInt_7: "parseInt ''7'' = Some 7"
  by (simp add: parseInt_def js_whitespace_def startsWith_def is_digit_def digit_chars_def
      nat_of_digits_def digit_val_def)

theorem switchAccount_invalid_selection_witness:
  "accounts demo_session \<noteq> [] \<and> parseInt ''7'' = Some 7 \<and>
   ((7::int) < 1 \<or> int (length (accounts demo_session)) < 7) \<and>
   outcome_session (switchAccount demo_derive demo_session (demo_env [''7''] [])) = demo_session \<and>
   stdin (outcome_env (switchAccount demo_derive demo_session (demo_env [''7''] []))) = []"
  using switchAccount_invalid_selection [of demo_session "demo_env [''7''] []" "''7''" "[]" 7 demo_derive]
    parseInt_7
  by simp

definition transferFrom_granted :: "session \<Rightarrow> env \<Rightarrow> event \<Rightarrow> bool" where
  "transferFrom_granted s e w =
     (\<exists>token sender recipient amount ins d a rs n.
        tokenAddress s = Some token \<and> stdin e = sender # recipient # amount # ins \<and>
        replies e = Number d # Number a # rs \<and> parseAmount amount d = Inr n \<and> n \<le> int a \<and>
        w = Call (WriteContract (walletClient s) token ''transferFrom''
              [Addr (toHexAddress sender), Addr (toHexAddress recipient), Uint n]
              (session.account s)))"

lemma transferFrom_refused:
  assumes "tokenAddress s = Some token"
    and "stdin e = sender # recipient # amount # ins"
    and "replies e = Number d # Number a # rs"
    and "parseAmount amount d = Inr n"
    and "int a < n"
  shows "transferFromTokens s e =
           Menu s (e\<lparr>stdin := ins, replies := rs,
             trace := trace e @
               [Question ''Enter sender address: '',
                Question ''Enter recipient address: '',
                Question ''Enter amount to transfer: '',
                Call (ReadContract token ''decimals'' []),
                Call (ReadContract token ''allowance''
                  [Addr (toHexAddress sender), Addr (userAddress s)]),
                Log (''Insufficient allowance. Current allowance: '' @
                  formatAmount (int a) d)]\<rparr>)"
  using assms
  by (simp add: transferFromTokens_def run_simps Let_def emit_def console_log_def)

lemma transferFrom_submits:
  assumes "tokenAddress s = Some token"
    and "stdin e = sender # recipient # amount # ins"
    and "replies e = Number d # Number a # rs"
    and "parseAmount amount d = Inr n"
    and "n \<le> int a"
  shows "submitted (emitted e (transferFromTokens s e)) =
           [Call (WriteContract (walletClient s) token ''transferFrom''
              [Addr (toHexAddress sender), Addr (toHexAddress recipient), Uint n]
              (session.account s))]"
  apply (rule wrote_emitted)
  using assms
  apply (simp add: transferFromTokens_def run_simps Let_def then_menu_def)
  apply (intro holds_intros holds_if; (simp only: holds_simps)?;
      (assumption | rule wrote_intros)+)
  done

lemma transferFrom_submits_only:
  "\<forall>w\<in>set (submitted (emitted e (transferFromTokens s e))). transferFrom_granted s e w"
  apply (rule only_writes_emitted)
  unfolding transferFromTokens_def readContract_def writeContract_def
    waitForTransactionReceipt_def then_menu_def Let_def
  apply (intro holds_vcg; (simp only: holds_simps)?;
      (assumption | rule only_writes_quiet only_writes_start only_writes_write)+)
  apply (auto simp: transferFrom_granted_def expected_read_number)
  done

text \<open>
  C1. In \<open>transferFromTokens\<close>, once the decimals \<open>d\<close> and the allowance \<open>a\<close> of the
  sender to the user address have been read and the entered amount scales to \<open>n\<close>: when
  \<open>a < n\<close> the operation reports the current allowance and hands control to the menu with
  no contract write among its effects; when \<open>n \<le> a\<close> it submits exactly the
  \<open>transferFrom\<close> write. In every run, whatever the inputs, a contract write is submitted
  only after an allowance of at least the amount has been read.
\<close>

theorem transferFrom_allowance_guard:
  "(tokenAddress s = Some token \<and> stdin e = sender # recipient # amount # ins \<and>
    replies e = Number d # Number a # rs \<and> parseAmount amount d = Inr n \<longrightarrow>
      (int a < n \<longrightarrow>
         transferFromTokens s e =
           Menu s (e\<lparr>stdin := ins, replies := rs,
             trace := trace e @
               [Question ''Enter sender address: '',
                Question ''Enter recipient address: '',
                Question ''Enter amount to transfer: '',
                Call (ReadContract token ''decimals'' []),
                Call (ReadContract token ''allowance''
                  [Addr (toHexAddress sender), Addr (userAddress s)]),
                Log (''Insufficient allowance. Current allowance: '' @
                  formatAmount (int a) d)]\<rparr>) \<and>
         submitted (emitted e (transferFromTokens s e)) = []) \<and>
      (n \<le> int a \<longrightarrow>
         submitted (emitted e (transferFromTokens s e)) =
           [Call (WriteContract (walletClient s) token ''transferFrom''
              [Addr (toHexAddress sender), Addr (toHexAddress recipient), Uint n]
              (session.account s))])) \<and>
   (\<forall>w\<in>set (submitted (emitted e (transferFromTokens s e))). transferFrom_granted s e w)"
proof (intro conjI impI)
  assume p: "tokenAddress s = Some token \<and> stdin e = sender # recipient # amount # ins \<and>
    replies e = Number d # Number a # rs \<and> parseAmount amount d = Inr n"
  then have t: "tokenAddress s = Some token"
    and i: "stdin e = sender # recipient # amount # ins"
    and r: "replies e = Number d # Number a # rs"
    and v: "parseAmount amount d = Inr n"
    by simp_all
  {
    assume "int a < n"
    then show "transferFromTokens s e =
           Menu s (e\<lparr>stdin := ins, replies := rs,
             trace := trace e @
               [Question ''Enter sender address: '',
                Question ''Enter recipient address: '',
                Question ''Enter amount to transfer: '',
                Call (ReadContract token ''decimals'' []),
                Call (ReadContract token ''allowance''
                  [Addr (toHexAddress sender), Addr (userAddress s)]),
                Log (''Insufficient allowance. Current allowance: '' @
                  formatAmount (int a) d)]\<rparr>)"
      by (rule transferFrom_refused [OF t i r v])
    then show "submitted (emitted e (transferFromTokens s e)) = []"
      by simp
  }
  {
    assume "n \<le> int a"
    then show "submitted (emitted e (transferFromTokens s e)) =
           [Call (WriteContract (walletClient s) token ''transferFrom''
              [Addr (toHexAddress sender), Addr (toHexAddress recipient), Uint n]
              (session.account s))]"
      by (rule transferFrom_submits [OF t i r v])
  }
next
  show "\<forall>w\<in>set (submitted (emitted e (transferFromTokens s e))). transferFrom_granted s e w"
    by (rule transferFrom_submits_only)
qed

lemma parseAmount_5: "parseAmount ''5'' 18 = Inr (5 * 10 ^ 18)"
  by (simp add: parseAmount_def decimal_value_def decimal_parts_def parts_value_def
      nat_of_digits_def digit_val_def is_digit_def digit_chars_def)

text \<open>The scenario of the specification: 5 tokens asked, 3 allowed, 18 decimals.\<close>

theorem transferFrom_allowance_guard_witness:
  "tokenAddress (demo_session\<lparr>tokenAddress := Some ''0xT''\<rparr>) = Some ''0xT'' \<and>
   parseAmount ''5'' 18 = Inr (5 * 10 ^ 18) \<and> int (3 * 10 ^ 18) < 5 * 10 ^ 18 \<and>
   outcome_session (transferFromTokens (demo_session\<lparr>tokenAddress := Some ''0xT''\<rparr>)
     (demo_env [''0xS'', ''0xR'', ''5''] [Number 18, Number (3 * 10 ^ 18)])) =
     demo_session\<lparr>tokenAddress := Some ''0xT''\<rparr> \<and>
   submitted (emitted (demo_env [''0xS'', ''0xR'', ''5''] [Number 18, Number (3 * 10 ^ 18)])
     (transferFromTokens (demo_session\<lparr>tokenAddress := Some ''0xT''\<rparr>)
       (demo_env [''0xS'', ''0xR'', ''5''] [Number 18, Number (3 * 10 ^ 18)]))) = []"
  using transferFrom_allowance_guard [of "demo_session\<lparr>tokenAddress := Some ''0xT''\<rparr>" "''0xT''"
      "demo_env [''0xS'', ''0xR'', ''5''] [Number 18, Number (3 * 10 ^ 18)]"
      "''0xS''" "''0xR''" "''5''" "[]" 18 "3 * 10 ^ 18" "[]" "5 * 10 ^ 18"]
    parseAmount_5
  by simp

lemma parseAmount_valid:
  "decimal_value amount = Some v \<Longrightarrow> parseAmount amount d = Inr (round (v * 10 ^ d))"
  by (simp add: parseAmount_def)

lemma parseAmount_invalid:
  "decimal_value amount = None \<Longrightarrow> parseAmount amount d = Inl InvalidDecimalNumber"
  by (simp add: parseAmount_def)

lemma mint_rejects:
  assumes "tokenAddress s = Some token" "stdin e = recipientInput # amount # ins"
    "replies e = Number d # rs" "decimal_value amount = None"
  shows "mintTokens s e =
           Menu s (e\<lparr>stdin := ins, replies := rs,
             trace := trace e @
               [Question (''Enter recipient address (default: '' @ userAddress s @ ''): ''),
                Question ''Enter amount to mint: '',
                Call (ReadContract token ''decimals'' []),
                Error ''Error minting tokens:'']\<rparr>)"
  using assms parseAmount_invalid [of amount d]
  by (simp add: mintTokens_def run_simps Let_def emit_def console_error_def)

lemma mint_submits:
  assumes "tokenAddress s = Some token" "stdin e = recipientInput # amount # ins"
    "replies e = Number d # rs" "decimal_value amount = Some v"
  shows "submitted (emitted e (mintTokens s e)) =
           [Call (WriteContract (walletClient s) token ''mint''
              [Addr (if recipientInput = [] then userAddress s else toHexAddress recipientInput),
               Uint (round (v * 10 ^ d))] (session.account s))]"
  apply (rule wrote_emitted)
  using assms parseAmount_valid [of amount v d]
  apply (simp add: mintTokens_def run_simps Let_def then_menu_def)
  apply (intro holds_intros holds_if conjI impI; (simp only: holds_simps)?;
      (assumption | rule wrote_intros)+)
  done

lemma burn_rejects:
  assumes "tokenAddress s = Some token" "stdin e = amount # ins"
    "replies e = Number d # rs" "decimal_value amount = None"
  shows "burnTokens s e =
           Menu s (e\<lparr>stdin := ins, replies := rs,
             trace := trace e @
               [Question ''Enter amount to burn: '',
                Call (ReadContract token ''decimals'' []),
                Error ''Error burning tokens:'']\<rparr>)"
  using assms parseAmount_invalid [of amount d]
  by (simp add: burnTokens_def run_simps Let_def emit_def console_error_def)

lemma burn_submits:
  assumes "tokenAddress s = Some token" "stdin e = amount # ins"
    "replies e = Number d # rs" "decimal_value amount = Some v"
  shows "submitted (emitted e (burnTokens s e)) =
           [Call (WriteContract (walletClient s) token ''burn''
              [Uint (round (v * 10 ^ d))] (session.account s))]"
  apply (rule wrote_emitted)
  using assms parseAmount_valid [of amount v d]
  apply (simp add: burnTokens_def run_simps Let_def then_menu_def)
  apply (intro holds_intros holds_if; (simp only: holds_simps)?;
      (assumption | rule wrote_intros)+)
  done

lemma transfer_rejects:
  assumes "tokenAddress s = Some token" "stdin e = recipientInput # amount # ins"
    "replies e = Number d # rs" "decimal_value amount = None"
  shows "transferTokens s e =
           Menu s (e\<lparr>stdin := ins, replies := rs,
             trace := trace e @
               [Question ''Enter recipient address: '',
                Question ''Enter amount to transfer: '',
                Call (ReadContract token ''decimals'' []),
                Error ''Error transferring tokens:'']\<rparr>)"
  using assms parseAmount_invalid [of amount d]
  by (simp add: transferTokens_def run_simps Let_def emit_def console_error_def)

lemma transfer_submits:
  assumes "tokenAddress s = Some token" "stdin e = recipientInput # amount # ins"
    "replies e = Number d # rs" "decimal_value amount = Some v"
  shows "submitted (emitted e (transferTokens s e)) =
           [Call (WriteContract (walletClient s) token ''transfer''
              [Addr (toHexAddress recipientInput), Uint (round (v * 10 ^ d))]
              (session.account s))]"
  apply (rule wrote_emitted)
  using assms parseAmount_valid [of amount v d]
  apply (simp add: transferTokens_def run_simps Let_def then_menu_def)
  apply (intro holds_intros holds_if; (simp only: holds_simps)?;
      (assumption | rule wrote_intros)+)
  done

lemma approve_rejects:
  assumes "tokenAddress s = Some token" "stdin e = spenderInput # amount # ins"
    "replies e = Number d # rs" "decimal_value amount = None"
  shows "approveTokens s e =
           Menu s (e\<lparr>stdin := ins, replies := rs,
             trace := trace e @
               [Question ''Enter spender address: '',
                Question ''Enter amount to approve: '',
                Call (ReadContract token ''decimals'' []),
                Error ''Error approving tokens:'']\<rparr>)"
  using assms parseAmount_invalid [of amount d]
  by (simp add: approveTokens_def run_simps Let_def emit_def console_error_def)

lemma approve_submits:
  assumes "tokenAddress s = Some token" "stdin e = spenderInput # amount # ins"
    "replies e = Number d # rs" "decimal_value amount = Some v"
  shows "submitted (emitted e (approveTokens s e)) =
           [Call (WriteContract (walletClient s) token ''approve''
              [Addr (toHexAddress spenderInput), Uint (round (v * 10 ^ d))]
              (session.account s))]"
  apply (rule wrote_emitted)
  using assms parseAmount_valid [of amount v d]
  apply (simp add: approveTokens_def run_simps Let_def then_menu_def)
  apply (intro holds_intros holds_if; (simp only: holds_simps)?;
      (assumption | rule wrote_intros)+)
  done

lemma transferFrom_rejects:
  assumes "tokenAddress s = Some token" "stdin e = senderInput # recipientInput # amount # ins"
    "replies e = Number d # rs" "decimal_value amount = None"
  shows "transferFromTokens s e =
           Menu s (e\<lparr>stdin := ins, replies := rs,
             trace := trace e @
               [Question ''Enter sender address: '',
                Question ''Enter recipient address: '',
                Question ''Enter amount to transfer: '',
                Call (ReadContract token ''decimals'' []),
                Error ''Error transferring tokens:'']\<rparr>)"
  using assms parseAmount_invalid [of amount d]
  by (simp add: transferFromTokens_def run_simps Let_def emit_def console_error_def)

lemma parseAmount_10: "parseAmount ''10'' 18 = Inr (10 * 10 ^ 18)"
  by (simp add: parseAmount_def decimal_value_def decimal_parts_def parts_value_def
      nat_of_digits_def digit_val_def is_digit_def digit_chars_def)

lemma decimal_value_10: "decimal_value ''10'' = Some 10"
  by (simp add: decimal_value_def decimal_parts_def parts_value_def
      nat_of_digits_def digit_val_def is_digit_def digit_chars_def)

lemma decimal_value_abc: "decimal_value ''abc'' = None"
  by (simp add: decimal_value_def decimal_parts_def is_digit_def digit_chars_def)

definition rejected :: "session \<Rightarrow> env \<Rightarrow> unit outcome \<Rightarrow> bool" where
  "rejected s e r =
     (\<exists>e' m. r = Menu s e' \<and> submitted (emitted e r) = [] \<and> trace e' \<noteq> [] \<and>
        last (trace e') = Error m)"

text \<open>
  C7. With a token connected and the decimals \<open>d\<close> read from the chain, every mutating
  operation scales the entered amount with \<open>parseAmount\<close>: a decimal string of value \<open>v\<close>
  makes the operation submit exactly one contract write, whose amount is the integer
  \<open>round (v * 10^d)\<close> (for \<open>transferFrom\<close>, when the allowance read covers it); any other
  input raises the parse error, which the operation reports before handing control to the
  menu, session unchanged and nothing submitted. An empty recipient makes \<open>mint\<close> send to
  the user address, the address of the account bound for signing; and \<open>"10"\<close> at 18
  decimals is \<open>10 * 10^18\<close>.
\<close>

theorem submitted_amount_is_scaled:
  assumes "tokenAddress s = Some token" and "replies e = Number d # rs"
  shows "(\<forall>party amount ins. stdin e = party # amount # ins \<longrightarrow>
            (decimal_value amount = None \<longrightarrow>
               rejected s e (mintTokens s e) \<and> rejected s e (transferTokens s e) \<and>
               rejected s e (approveTokens s e)) \<and>
            (\<forall>v. decimal_value amount = Some v \<longrightarrow>
               submitted (emitted e (mintTokens s e)) =
                 [Call (WriteContract (walletClient s) token ''mint''
                    [Addr (if party = [] then userAddress s else toHexAddress party),
                     Uint (round (v * 10 ^ d))] (session.account s))] \<and>
               submitted (emitted e (transferTokens s e)) =
                 [Call (WriteContract (walletClient s) token ''transfer''
                    [Addr (toHexAddress party), Uint (round (v * 10 ^ d))]
                    (session.account s))] \<and>
               submitted (emitted e (approveTokens s e)) =
                 [Call (WriteContract (walletClient s) token ''approve''
                    [Addr (toHexAddress party), Uint (round (v * 10 ^ d))]
                    (session.account s))])) \<and>
         (\<forall>amount ins. stdin e = amount # ins \<longrightarrow>
            (decimal_value amount = None \<longrightarrow> rejected s e (burnTokens s e)) \<and>
            (\<forall>v. decimal_value amount = Some v \<longrightarrow>
               submitted (emitted e (burnTokens s e)) =
                 [Call (WriteContract (walletClient s) token ''burn''
                    [Uint (round (v * 10 ^ d))] (session.account s))])) \<and>
         (\<forall>sender recipient amount ins. stdin e = sender # recipient # amount # ins \<longrightarrow>
            (decimal_value amount = None \<longrightarrow> rejected s e (transferFromTokens s e)) \<and>
            (\<forall>v a rs'. decimal_value amount = Some v \<longrightarrow> rs = Number a # rs' \<longrightarrow>
               round (v * 10 ^ d) \<le> int a \<longrightarrow>
               submitted (emitted e (transferFromTokens s e)) =
                 [Call (WriteContract (walletClient s) token ''transferFrom''
                    [Addr (toHexAddress sender), Addr (toHexAddress recipient),
                     Uint (round (v * 10 ^ d))] (session.account s))])) \<and>
         parseAmount ''10'' 18 = Inr (10 * 10 ^ 18)"
proof (intro conjI allI impI)
  fix party amount ins
  assume i: "stdin e = party # amount # ins"
  {
    assume n: "decimal_value amount = None"
    show "rejected s e (mintTokens s e)"
      by (simp add: mint_rejects [OF assms(1) i assms(2) n] rejected_def)
    show "rejected s e (transferTokens s e)"
      by (simp add: transfer_rejects [OF assms(1) i assms(2) n] rejected_def)
    show "rejected s e (approveTokens s e)"
      by (simp add: approve_rejects [OF assms(1) i assms(2) n] rejected_def)
  }
  fix v
  assume v: "decimal_value amount = Some v"
  show "submitted (emitted e (mintTokens s e)) =
      [Call (WriteContract (walletClient s) token ''mint''
         [Addr (if party = [] then userAddress s else toHexAddress party),
          Uint (round (v * 10 ^ d))] (session.account s))]"
    by (rule mint_submits [OF assms(1) i assms(2) v])
  show "submitted (emitted e (transferTokens s e)) =
      [Call (WriteContract (walletClient s) token ''transfer''
         [Addr (toHexAddress party), Uint (round (v * 10 ^ d))] (session.account s))]"
    by (rule transfer_submits [OF assms(1) i assms(2) v])
  show "submitted (emitted e (approveTokens s e)) =
      [Call (WriteContract (walletClient s) token ''approve''
         [Addr (toHexAddress party), Uint (round (v * 10 ^ d))] (session.account s))]"
    by (rule approve_submits [OF assms(1) i assms(2) v])
next
  fix amount ins
  assume i: "stdin e = amount # ins"
  {
    assume n: "decimal_value amount = None"
    show "rejected s e (burnTokens s e)"
      by (simp add: burn_rejects [OF assms(1) i assms(2) n] rejected_def)
  }
  fix v
  assume v: "decimal_value amount = Some v"
  show "submitted (emitted e (burnTokens s e)) =
      [Call (WriteContract (walletClient s) token ''burn''
         [Uint (round (v * 10 ^ d))] (session.account s))]"
    by (rule burn_submits [OF assms(1) i assms(2) v])
next
  fix sender recipient amount ins
  assume i: "stdin e = sender # recipient # amount # ins"
  {
    assume n: "decimal_value amount = None"
    show "rejected s e (transferFromTokens s e)"
      by (simp add: transferFrom_rejects [OF assms(1) i assms(2) n] rejected_def)
  }
  fix v a rs'
  assume v: "decimal_value amount = Some v" and r: "rs = Number a # rs'"
    and le: "round (v * 10 ^ d) \<le> int a"
  from assms(2) r have r': "replies e = Number d # Number a # rs'"
    by simp
  show "submitted (emitted e (transferFromTokens s e)) =
      [Call (WriteContract (walletClient s) token ''transferFrom''
         [Addr (toHexAddress sender), Addr (toHexAddress recipient),
          Uint (round (v * 10 ^ d))] (session.account s))]"
    by (rule transferFrom_submits [OF assms(1) i r' parseAmount_valid [OF v] le])
next
  show "parseAmount ''10'' 18 = Inr (10 * 10 ^ 18)"
    by (rule parseAmount_10)
qed

text \<open>The scenario of the specification (mint 10 tokens, 18 decimals, no recipient given),
  and a rejected amount.\<close>

theorem submitted_amount_is_scaled_witness:
  "tokenAddress (demo_session\<lparr>tokenAddress := Some ''0xT''\<rparr>) = Some ''0xT'' \<and>
   decimal_value ''10'' = Some 10 \<and> decimal_value ''abc'' = None \<and>
   submitted (emitted (demo_env ['''', ''10''] [Number 18])
     (mintTokens (demo_session\<lparr>tokenAddress := Some ''0xT''\<rparr>)
        (demo_env ['''', ''10''] [Number 18]))) =
     [Call (WriteContract (walletClient demo_session) ''0xT'' ''mint''
        [Addr ''0xA1'', Uint (10 * 10 ^ 18)] demo_account)] \<and>
   rejected (demo_session\<lparr>tokenAddress := Some ''0xT''\<rparr>) (demo_env [''abc''] [Number 18])
     (burnTokens (demo_session\<lparr>tokenAddress := Some ''0xT''\<rparr>) (demo_env [''abc''] [Number 18]))"
  using submitted_amount_is_scaled [of "demo_session\<lparr>tokenAddress := Some ''0xT''\<rparr>" "''0xT''"
      "demo_env ['''', ''10''] [Number 18]" 18 "[]"]
    submitted_amount_is_scaled [of "demo_session\<lparr>tokenAddress := Some ''0xT''\<rparr>" "''0xT''"
      "demo_env [''abc''] [Number 18]" 18 "[]"]
    decimal_value_10 decimal_value_abc
  by simp

definition details_reads :: "address \<Rightarrow> address \<Rightarrow> call list" where
  "details_reads token user =
     [ReadContract token ''name'' [], ReadContract token ''symbol'' [],
      ReadContract token ''decimals'' [], ReadContract token ''totalSupply'' [],
      ReadContract token ''balanceOf'' [Addr user]]"

lemma list_ex_zip_nth:
  assumes "i < length cs" "i < length rs" "Q (cs ! i, rs ! i)"
  shows "list_ex Q (zip cs (take (length cs) rs))"
proof -
  have "(cs ! i, take (length cs) rs ! i) \<in> set (zip cs (take (length cs) rs))"
    using assms(1,2) by (auto simp: in_set_zip)
  with assms show ?thesis
    by (auto simp: list_ex_iff)
qed

lemma promise_all_rejects:
  assumes "list_ex (\<lambda>(c, r). \<not> expected c r) (zip cs (take (length cs) (replies e)))"
  shows "promise_all cs s e k =
           Throw s (e\<lparr>replies := drop (length cs) (replies e), trace := trace e @ map Call cs\<rparr>)"
  using assms by (simp add: promise_all_def Let_def)

lemma promise_all_resolves:
  assumes "\<not> list_ex (\<lambda>(c, r). \<not> expected c r) (zip cs (take (length cs) (replies e)))"
    and "length cs \<le> length (replies e)"
  shows "promise_all cs s e k =
           k (take (length cs) (replies e))
             (e\<lparr>replies := drop (length cs) (replies e), trace := trace e @ map Call cs\<rparr>)"
  using assms by (simp add: promise_all_def Let_def)

lemma showTokenDetails_failed:
  assumes t: "tokenAddress s = Some token"
    and i: "i < 5" "i < length (replies e)"
    and f: "\<not> expected (details_reads token (userAddress s) ! i) (replies e ! i)"
  shows "\<exists>e'. showTokenDetails s e = Return False (s\<lparr>tokenAddress := None\<rparr>) e' \<and>
           trace e' \<noteq> [] \<and> last (trace e') = Error ''Error fetching token details:''"
proof -
  let ?cs = "[ReadContract token ''name'' [], ReadContract token ''symbol'' [],
      ReadContract token ''decimals'' [], ReadContract token ''totalSupply'' []]"
  show ?thesis
  proof (cases "list_ex (\<lambda>(c, r). \<not> expected c r) (zip ?cs (take (length ?cs) (replies e)))")
    case True
    show ?thesis
      using t by (simp add: showTokenDetails_def promise_all_rejects [OF True])
  next
    case False
    have "i = 4"
    proof (rule ccontr)
      assume "i \<noteq> 4"
      with i have i4: "i < length ?cs" by simp
      have "?cs ! i = details_reads token (userAddress s) ! i"
        using i4 by (auto simp: details_reads_def less_Suc_eq numeral_eq_Suc)
      with f have "(\<lambda>(c, r). \<not> expected c r) (?cs ! i, replies e ! i)"
        by simp
      from list_ex_zip_nth [OF i4 i(2), of "\<lambda>(c, r). \<not> expected c r", OF this] False
      show False by simp
    qed
    with i obtain r0 r1 r2 r3 r4 rest where rs: "replies e = r0 # r1 # r2 # r3 # r4 # rest"
      by (cases "replies e"; simp; rename_tac a as; case_tac as; simp;
          rename_tac b bs; case_tac bs; simp; rename_tac c cs; case_tac cs; simp;
          rename_tac d ds; case_tac ds; simp)
    with f \<open>i = 4\<close> have bad: "\<not> expected (ReadContract token ''balanceOf'' [Addr (userAddress s)]) r4"
      by (simp add: details_reads_def)
    have len: "length ?cs \<le> length (replies e)"
      using rs by simp
    show ?thesis
      using t rs bad
      by (simp add: showTokenDetails_def promise_all_resolves [OF False len]
          readContract_def request_failed Let_def)
  qed
qed

lemma connectToToken_failed:
  assumes "stdin e = addressInput # ins"
    and "i < 5" "i < length (replies e)"
    and "\<not> expected (details_reads (toHexAddress addressInput) (userAddress s) ! i) (replies e ! i)"
  shows "\<exists>e'. connectToToken s e = Return True (s\<lparr>tokenAddress := None\<rparr>) e' \<and>
           trace e' \<noteq> [] \<and> last (trace e') = Error ''Error fetching token details:''"
proof -
  let ?s = "s\<lparr>tokenAddress := Some (toHexAddress addressInput)\<rparr>"
  let ?e = "(emit (Question ''Enter token address: '') e)\<lparr>stdin := ins\<rparr>"
  have "\<exists>e'. showTokenDetails ?s ?e = Return False (?s\<lparr>tokenAddress := None\<rparr>) e' \<and>
           trace e' \<noteq> [] \<and> last (trace e') = Error ''Error fetching token details:''"
    using assms by (intro showTokenDetails_failed [where i = i]) simp_all
  then obtain e' where "showTokenDetails ?s ?e = Return False (?s\<lparr>tokenAddress := None\<rparr>) e'"
    and "trace e' \<noteq> []" "last (trace e') = Error ''Error fetching token details:''"
    by blast
  with assms(1) show ?thesis
    by (simp add: connectToToken_def question_next Let_def)
qed

text \<open>
  C4. The details fetch issues five reads (name, symbol, decimals, total supply, balance of
  the user address). When the reply to any one of them is a failure, \<open>showTokenDetails\<close>
  reports the error and returns with the connected token set to none, whatever token was
  connected; \<open>connectToToken\<close> sets the entered address and runs the same fetch, so a
  failed read leaves the connected token none there too, whatever it was before.
\<close>

theorem failed_details_clear_token:
  assumes "i < 5" and "i < length (replies e)"
    and "\<not> expected (details_reads token (userAddress s) ! i) (replies e ! i)"
  shows "(tokenAddress s = Some token \<longrightarrow>
            (\<exists>e'. showTokenDetails s e = Return False (s\<lparr>tokenAddress := None\<rparr>) e' \<and>
               trace e' \<noteq> [] \<and> last (trace e') = Error ''Error fetching token details:'')) \<and>
         (\<forall>addressInput ins. stdin e = addressInput # ins \<longrightarrow>
            toHexAddress addressInput = token \<longrightarrow>
            (\<exists>e'. connectToToken s e = Return True (s\<lparr>tokenAddress := None\<rparr>) e' \<and>
               trace e' \<noteq> [] \<and> last (trace e') = Error ''Error fetching token details:''))"
  using assms showTokenDetails_failed [of s token i e]
    connectToToken_failed [of e _ _ i s]
  by blast

theorem failed_details_clear_token_witness:
  "(2::nat) < 5 \<and> 2 < length (replies (demo_env [''T''] [Text ''Gold'', Text ''GLD'', Failed])) \<and>
   \<not> expected (details_reads ''0xT'' (userAddress demo_session) ! 2)
       (replies (demo_env [''T''] [Text ''Gold'', Text ''GLD'', Failed]) ! 2) \<and>
   tokenAddress (demo_session\<lparr>tokenAddress := Some ''0xT''\<rparr>) = Some ''0xT'' \<and>
   toHexAddress ''T'' = ''0xT'' \<and>
   tokenAddress (outcome_session (showTokenDetails (demo_session\<lparr>tokenAddress := Some ''0xT''\<rparr>)
     (demo_env [''T''] [Text ''Gold'', Text ''GLD'', Failed]))) = None \<and>
   tokenAddress (outcome_session (connectToToken (demo_session\<lparr>tokenAddress := Some ''0xOld''\<rparr>)
     (demo_env [''T''] [Text ''Gold'', Text ''GLD'', Failed]))) = None"
  using failed_details_clear_token [of 2 "demo_env [''T''] [Text ''Gold'', Text ''GLD'', Failed]"
      "''0xT''" "demo_session\<lparr>tokenAddress := Some ''0xT''\<rparr>"]
    failed_details_clear_token [of 2 "demo_env [''T''] [Text ''Gold'', Text ''GLD'', Failed]"
      "''0xT''" "demo_session\<lparr>tokenAddress := Some ''0xOld''\<rparr>"]
  by (auto simp: details_reads_def toHexAddress_def startsWith_def)

lemma showTokenDetails_displayed:
  assumes "tokenAddress s = Some token"
    and "replies e = Text nm # Text sy # Number d # Number ts # Number bal # rs"
  shows "showTokenDetails s e =
           Return True s (e\<lparr>replies := rs,
             trace := trace e @
               [Call (ReadContract token ''name'' []), Call (ReadContract token ''symbol'' []),
                Call (ReadContract token ''decimals'' []),
                Call (ReadContract token ''totalSupply'' []),
                Log ''Token Details:'', Log (''Name: '' @ nm), Log (''Symbol: '' @ sy),
                Log (''Decimals: '' @ digits_of_nat d),
                Log (''Total Supply: '' @ formatAmount (int ts) d),
                Log (''Contract Address: '' @ token),
                Call (ReadContract token ''balanceOf'' [Addr (userAddress s)]),
                Log (''Your balance: '' @ formatAmount (int bal) d)]\<rparr>)"
  using assms
  by (simp add: showTokenDetails_def promise_all_def readContract_def request_next Let_def
      emit_def console_log_def)

definition creation_env :: "session \<Rightarrow> env \<Rightarrow> string \<Rightarrow> string \<Rightarrow> string \<Rightarrow> string list \<Rightarrow>
    string \<Rightarrow> nat \<Rightarrow> reply list \<Rightarrow> string \<Rightarrow> env" where
  "creation_env s e nm sy ownerInput ins h b rs final =
     e\<lparr>stdin := ins, replies := rs,
       trace := trace e @
         [Question ''Enter token name: '', Question ''Enter token symbol: '',
          Question (''Enter initial owner address (default: '' @ userAddress s @ ''): ''),
          Log (''Creating token '' @ nm @ '' ('' @ sy @ '')...''),
          Call (WriteContract (walletClient s) (toHexAddress (tokenFactoryAddress (config s)))
            ''createToken''
            [Str nm, Str sy,
             Addr (if ownerInput = [] then userAddress s else toHexAddress ownerInput)]
            (session.account s)),
          Log (''Transaction sent: '' @ h),
          Log ''Waiting for transaction confirmation...'',
          Call (WaitForTransactionReceipt h),
          Call (GetLogs (toHexAddress (tokenFactoryAddress (config s))) b b),
          Log final]\<rparr>"

lemma createToken_found:
  assumes "stdin e = nm # sy # ownerInput # ins"
    and "replies e = TxHash h # Receipt b # Logs (TokenCreated (Some a) owner # rest) # rs"
    and "a \<noteq> []"
  shows "createToken s e =
           then_menu (try_catch
             (and_then
                (showTokenDetails (s\<lparr>tokenAddress := Some a\<rparr>)
                   (creation_env s e nm sy ownerInput ins h b rs
                      (''Token created successfully at address: '' @ a)))
                (\<lambda>x s e. Return () s e))
             (\<lambda>s e. Return () s (console_error ''Error creating token:'' e)))"
  using assms
  by (simp add: createToken_def run_simps Let_def creation_env_def emit_def console_log_def)

lemma createToken_not_found:
  assumes "stdin e = nm # sy # ownerInput # ins"
    and "replies e = TxHash h # Receipt b # Logs ls # rs"
    and "ls = [] \<or> (\<exists>owner rest. ls = TokenCreated None owner # rest)"
  shows "createToken s e =
           Menu s (creation_env s e nm sy ownerInput ins h b rs
             ''Token creation event not found in the transaction receipt'')"
  using assms
  by (auto simp: createToken_def run_simps Let_def creation_env_def emit_def console_log_def)

lemma creation_env_simps [simp]:
  "replies (creation_env s e nm sy ownerInput ins h b rs final) = rs"
  by (simp add: creation_env_def)

text \<open>
  C5, as stated, fails: the transaction confirms and the block holds a \<open>TokenCreated\<close>
  event for \<open>0xT\<close>, but the first read of the details fetch fails, so the details are not
  displayed and the connected token ends as none.
\<close>

theorem createToken_details_counterexample:
  "tokenAddress (outcome_session (createToken demo_session
       (demo_env [''Gold'', ''GLD'', '''']
          [TxHash ''0xh'', Receipt 7, Logs [TokenCreated (Some ''0xT'') (Some ''0xA1'')], Failed])))
     \<noteq> Some ''0xT'' \<and>
   Log ''Token Details:'' \<notin> set (trace (outcome_env (createToken demo_session
       (demo_env [''Gold'', ''GLD'', '''']
          [TxHash ''0xh'', Receipt 7, Logs [TokenCreated (Some ''0xT'') (Some ''0xA1'')], Failed]))))"
  by (simp add: createToken_def run_simps Let_def showTokenDetails_def promise_all_def
      demo_session_def)

lemma createToken_displayed:
  assumes "stdin e = nm # sy # ownerInput # ins"
    and "replies e = TxHash h # Receipt b # Logs (TokenCreated (Some a) owner # rest) # rs"
    and "a \<noteq> []"
    and "rs = Text tn # Text ts # Number d # Number tsup # Number bal # rs'"
  shows "\<exists>e'. createToken s e = Menu (s\<lparr>tokenAddress := Some a\<rparr>) e' \<and>
           Log ''Token Details:'' \<in> set (trace e') \<and>
           Log (''Contract Address: '' @ a) \<in> set (trace e')"
proof -
  let ?s = "s\<lparr>tokenAddress := Some a\<rparr>"
  let ?e = "creation_env s e nm sy ownerInput ins h b rs
              (''Token created successfully at address: '' @ a)"
  have t: "tokenAddress ?s = Some a" by simp
  have r: "replies ?e = Text tn # Text ts # Number d # Number tsup # Number bal # rs'"
    using assms(4) by simp
  show ?thesis
    unfolding createToken_found [OF assms(1-3)] showTokenDetails_displayed [OF t r]
    by simp
qed

lemma createToken_cleared:
  assumes "stdin e = nm # sy # ownerInput # ins"
    and "replies e = TxHash h # Receipt b # Logs (TokenCreated (Some a) owner # rest) # rs"
    and "a \<noteq> []"
    and "i < 5" "i < length rs"
    and "\<not> expected (details_reads a (userAddress s) ! i) (rs ! i)"
  shows "\<exists>e'. createToken s e = Menu (s\<lparr>tokenAddress := None\<rparr>) e' \<and>
           trace e' \<noteq> [] \<and> last (trace e') = Error ''Error fetching token details:''"
proof -
  let ?s = "s\<lparr>tokenAddress := Some a\<rparr>"
  let ?e = "creation_env s e nm sy ownerInput ins h b rs
              (''Token created successfully at address: '' @ a)"
  have "\<exists>e'. showTokenDetails ?s ?e = Return False (?s\<lparr>tokenAddress := None\<rparr>) e' \<and>
           trace e' \<noteq> [] \<and> last (trace e') = Error ''Error fetching token details:''"
    using assms(4-6) by (intro showTokenDetails_failed [where i = i]) simp_all
  then obtain e' where "showTokenDetails ?s ?e = Return False (?s\<lparr>tokenAddress := None\<rparr>) e'"
    and "trace e' \<noteq> []" "last (trace e') = Error ''Error fetching token details:''"
    by blast
  then show ?thesis
    unfolding createToken_found [OF assms(1-3)]
    by simp
qed

text \<open>
  C5, amended. Once the creation is submitted (hash \<open>h\<close>), confirmed (block \<open>b\<close>) and the
  log query for that block answered with the logs \<open>ls\<close>: if the first log carries a token
  address, \<open>createToken\<close> connects to it and runs the details fetch; the details are
  displayed and the token stays connected when the five reads succeed, and the connected
  token is none when one of them fails. If no log is returned, or the first carries no
  token address, the operation reports that the event was not found and the session,
  connected token included, is as before.
\<close>

theorem createToken_connects_when_details_read:
  assumes "stdin e = nm # sy # ownerInput # ins"
    and "replies e = TxHash h # Receipt b # Logs ls # rs"
  shows "(\<forall>a owner rest. ls = TokenCreated (Some a) owner # rest \<longrightarrow> a \<noteq> [] \<longrightarrow>
            (\<forall>tn ts d tsup bal rs'.
                rs = Text tn # Text ts # Number d # Number tsup # Number bal # rs' \<longrightarrow>
                (\<exists>e'. createToken s e = Menu (s\<lparr>tokenAddress := Some a\<rparr>) e' \<and>
                   Log ''Token Details:'' \<in> set (trace e') \<and>
                   Log (''Contract Address: '' @ a) \<in> set (trace e'))) \<and>
            (\<forall>i. i < 5 \<longrightarrow> i < length rs \<longrightarrow>
                \<not> expected (details_reads a (userAddress s) ! i) (rs ! i) \<longrightarrow>
                (\<exists>e'. createToken s e = Menu (s\<lparr>tokenAddress := None\<rparr>) e' \<and>
                   trace e' \<noteq> [] \<and> last (trace e') = Error ''Error fetching token details:''))) \<and>
         (ls = [] \<or> (\<exists>owner rest. ls = TokenCreated None owner # rest) \<longrightarrow>
            createToken s e =
              Menu s (creation_env s e nm sy ownerInput ins h b rs
                ''Token creation event not found in the transaction receipt''))"
proof (intro conjI allI impI)
  fix a owner rest tn ts d tsup bal rs'
  assume "ls = TokenCreated (Some a) owner # rest" "a \<noteq> []"
    "rs = Text tn # Text ts # Number d # Number tsup # Number bal # rs'"
  with assms show "\<exists>e'. createToken s e = Menu (s\<lparr>tokenAddress := Some a\<rparr>) e' \<and>
      Log ''Token Details:'' \<in> set (trace e') \<and>
      Log (''Contract Address: '' @ a) \<in> set (trace e')"
    by (intro createToken_displayed) simp_all
next
  fix a owner rest i
  assume "ls = TokenCreated (Some a) owner # rest" "a \<noteq> []" "i < 5" "i < length rs"
    "\<not> expected (details_reads a (userAddress s) ! i) (rs ! i)"
  with assms show "\<exists>e'. createToken s e = Menu (s\<lparr>tokenAddress := None\<rparr>) e' \<and>
      trace e' \<noteq> [] \<and> last (trace e') = Error ''Error fetching token details:''"
    by (intro createToken_cleared [where i = i]) simp_all
next
  assume "ls = [] \<or> (\<exists>owner rest. ls = TokenCreated None owner # rest)"
  with assms show "createToken s e =
      Menu s (creation_env s e nm sy ownerInput ins h b rs
        ''Token creation event not found in the transaction receipt'')"
    by (intro createToken_not_found) simp_all
qed

theorem createToken_connects_when_details_read_witness:
  "stdin (demo_env [''Gold'', ''GLD'', '''']
     [TxHash ''0xh'', Receipt 7, Logs [TokenCreated (Some ''0xT'') (Some ''0xA1'')],
      Text ''Gold'', Text ''GLD'', Number 18, Number 0, Number 0]) = [''Gold'', ''GLD'', ''''] \<and>
   tokenAddress (outcome_session (createToken demo_session
     (demo_env [''Gold'', ''GLD'', '''']
        [TxHash ''0xh'', Receipt 7, Logs [TokenCreated (Some ''0xT'') (Some ''0xA1'')],
         Text ''Gold'', Text ''GLD'', Number 18, Number 0, Number 0]))) = Some ''0xT'' \<and>
   tokenAddress (outcome_session (createToken demo_session
     (demo_env [''Gold'', ''GLD'', ''''] [TxHash ''0xh'', Receipt 7, Logs []]))) = None"
  using createToken_connects_when_details_read [of
      "demo_env [''Gold'', ''GLD'', '''']
        [TxHash ''0xh'', Receipt 7, Logs [TokenCreated (Some ''0xT'') (Some ''0xA1'')],
         Text ''Gold'', Text ''GLD'', Number 18, Number 0, Number 0]"
      "''Gold''" "''GLD''" "''''" "[]" "''0xh''" 7
      "[TokenCreated (Some ''0xT'') (Some ''0xA1'')]"
      "[Text ''Gold'', Text ''GLD'', Number 18, Number 0, Number 0]" demo_session]
    createToken_connects_when_details_read [of
      "demo_env [''Gold'', ''GLD'', ''''] [TxHash ''0xh'', Receipt 7, Logs []]"
      "''Gold''" "''GLD''" "''''" "[]" "''0xh''" 7 "[]" "[]" demo_session]
  by auto

lemma account_lines_append:
  "account_lines cur i (xs @ ys) = account_lines cur i xs @ account_lines cur (i + length xs) ys"
  by (induction xs arbitrary: i) simp_all

definition new_identity :: "string \<Rightarrow> string \<Rightarrow> LocalAccount \<Rightarrow> AccountInfo" where
  "new_identity nm key acc =
     \<lparr>name = nm, AccountInfo.privateKey = key, AccountInfo.account = acc,
      AccountInfo.address = LocalAccount.address acc\<rparr>"

definition marked_current :: "nat \<Rightarrow> AccountInfo \<Rightarrow> event" where
  "marked_current index a =
     Log (digits_of_nat (index + 1) @ ''. '' @ name a @ '' ('' @ AccountInfo.address a @ '')'' @
          '' (Current)'')"

lemma marked_current_listed:
  "marked_current (length xs) a \<in> set (map Log (account_lines (length xs) 0 (xs @ [a])))"
  by (simp add: account_lines_append marked_current_def)

definition created_env :: "env \<Rightarrow> string \<Rightarrow> string \<Rightarrow> LocalAccount \<Rightarrow> string list \<Rightarrow> env" where
  "created_env e nm key acc rest =
     e\<lparr>drawn := Suc (drawn e),
       trace := trace e @
         [Question ''Enter a name for this account: '',
          Log (''New account created: '' @ nm),
          Log (''Address: '' @ LocalAccount.address acc),
          Log (''Private Key: '' @ key @ '' (Keep this secure!)''),
          Question ''Switch to this account? (y/n): ''],
       stdin := rest\<rparr>"

definition imported_env :: "env \<Rightarrow> string \<Rightarrow> LocalAccount \<Rightarrow> string list \<Rightarrow> env" where
  "imported_env e nm acc rest =
     e\<lparr>trace := trace e @
         [Question ''Enter a name for this account: '',
          Question ''Enter private key: '',
          Log (''Account imported: '' @ nm),
          Log (''Address: '' @ LocalAccount.address acc),
          Question ''Switch to this account? (y/n): ''],
       stdin := rest\<rparr>"

lemma created_env_simps [simp]:
  "stdin (created_env e nm key acc rest) = rest"
  "stdin (imported_env e nm acc rest) = rest"
  by (simp_all add: created_env_def imported_env_def)

lemma createNewAccount_yes:
  assumes "stdin e = nm # yes # rest"
    and "toLowerCase yes = ''y''"
    and "privateKeyToAccount derive (''0x'' @ entropy e (drawn e)) = Some acc"
  shows "createNewAccount derive s e =
           then_menu (try_catch
             (switchAccount derive
                (s\<lparr>accounts := accounts s @ [new_identity nm (''0x'' @ entropy e (drawn e)) acc],
                    currentAccountIndex := length (accounts s)\<rparr>)
                (created_env e nm (''0x'' @ entropy e (drawn e)) acc rest))
             (\<lambda>s e. Return () s (console_error ''Error creating new account:'' e)))"
  using assms
  by (subst createNewAccount.simps)
    (simp add: question_next generateRandomPrivateKey_def Let_def new_identity_def
      created_env_def emit_def console_log_def)

lemma importAccount_yes:
  assumes "stdin e = nm # key # yes # rest"
    and "toLowerCase yes = ''y''"
    and "privateKeyToAccount derive (if startsWith key ''0x'' then key else ''0x'' @ key) = Some acc"
  shows "importAccount derive s e =
           then_menu (try_catch
             (switchAccount derive
                (s\<lparr>accounts := accounts s @
                      [new_identity nm (if startsWith key ''0x'' then key else ''0x'' @ key) acc],
                    currentAccountIndex := length (accounts s)\<rparr>)
                (imported_env e nm acc rest))
             (\<lambda>s e. Return () s (console_error ''Error importing account:'' e)))"
  using assms
  by (cases "startsWith key ''0x''")
    (simp_all add: importAccount_def question_next Let_def new_identity_def
      imported_env_def emit_def console_log_def)

lemma switch_after_push_invalid:
  assumes "stdin e = choice # ins"
    and "parseInt choice = Some n"
    and "n < 1 \<or> int (length (accounts s)) + 1 < n"
  shows "\<exists>e'. then_menu (try_catch
           (switchAccount derive
              (s\<lparr>accounts := accounts s @ [a], currentAccountIndex := length (accounts s)\<rparr>) e) h) =
           Menu (s\<lparr>accounts := accounts s @ [a], currentAccountIndex := length (accounts s)\<rparr>) e' \<and>
           marked_current (length (accounts s)) a \<in> set (trace e')"
proof -
  let ?s = "s\<lparr>accounts := accounts s @ [a], currentAccountIndex := length (accounts s)\<rparr>"
  have inv: "accounts ?s \<noteq> []" "n < 1 \<or> int (length (accounts ?s)) < n"
    using assms(3) by auto
  show ?thesis
    unfolding switchAccount_invalid [OF inv(1) assms(1,2) inv(2)]
    using marked_current_listed [of "accounts s" a]
    by simp
qed

text \<open>
  C10. Creating or importing an account and answering \<open>y\<close> sets the current index to the
  new identity and then opens the switch-account dialogue, whose listing already marks the
  new identity as current. When the selection entered there is invalid, control reaches the
  menu in a session whose current index names the new identity while the signing account,
  the user address and the wallet client are those bound before: the index and the signer
  disagree.
\<close>

theorem switch_prompt_desynchronises:
  assumes "toLowerCase yes = ''y''"
    and "parseInt choice = Some n"
    and "n < 1 \<or> int (length (accounts s)) + 1 < n"
  shows "(\<forall>nm ins acc. stdin e = nm # yes # choice # ins \<longrightarrow>
            privateKeyToAccount derive (''0x'' @ entropy e (drawn e)) = Some acc \<longrightarrow>
            (\<exists>s' e'. createNewAccount derive s e = Menu s' e' \<and>
               accounts s' = accounts s @ [new_identity nm (''0x'' @ entropy e (drawn e)) acc] \<and>
               currentAccountIndex s' = length (accounts s) \<and>
               session.account s' = session.account s \<and> userAddress s' = userAddress s \<and>
               walletClient s' = walletClient s \<and>
               marked_current (length (accounts s))
                 (new_identity nm (''0x'' @ entropy e (drawn e)) acc) \<in> set (trace e'))) \<and>
         (\<forall>nm key ins acc. stdin e = nm # key # yes # choice # ins \<longrightarrow>
            privateKeyToAccount derive (if startsWith key ''0x'' then key else ''0x'' @ key) = Some acc \<longrightarrow>
            (\<exists>s' e'. importAccount derive s e = Menu s' e' \<and>
               accounts s' = accounts s @
                 [new_identity nm (if startsWith key ''0x'' then key else ''0x'' @ key) acc] \<and>
               currentAccountIndex s' = length (accounts s) \<and>
               session.account s' = session.account s \<and> userAddress s' = userAddress s \<and>
               walletClient s' = walletClient s \<and>
               marked_current (length (accounts s))
                 (new_identity nm (if startsWith key ''0x'' then key else ''0x'' @ key) acc)
                 \<in> set (trace e')))"
proof (intro conjI allI impI)
  fix nm ins acc
  assume i: "stdin e = nm # yes # choice # ins"
    and k: "privateKeyToAccount derive (''0x'' @ entropy e (drawn e)) = Some acc"
  let ?a = "new_identity nm (''0x'' @ entropy e (drawn e)) acc"
  let ?e = "created_env e nm (''0x'' @ entropy e (drawn e)) acc (choice # ins)"
  have "stdin ?e = choice # ins" by simp
  from switch_after_push_invalid [OF this assms(2,3), of derive ?a]
  show "\<exists>s' e'. createNewAccount derive s e = Menu s' e' \<and>
      accounts s' = accounts s @ [?a] \<and>
      currentAccountIndex s' = length (accounts s) \<and>
      session.account s' = session.account s \<and> userAddress s' = userAddress s \<and>
      walletClient s' = walletClient s \<and>
      marked_current (length (accounts s)) ?a \<in> set (trace e')"
    unfolding createNewAccount_yes [OF i assms(1) k]
    by fastforce
next
  fix nm key ins acc
  assume i: "stdin e = nm # key # yes # choice # ins"
    and k: "privateKeyToAccount derive (if startsWith key ''0x'' then key else ''0x'' @ key) = Some acc"
  let ?a = "new_identity nm (if startsWith key ''0x'' then key else ''0x'' @ key) acc"
  let ?e = "imported_env e nm acc (choice # ins)"
  have "stdin ?e = choice # ins" by simp
  from switch_after_push_invalid [OF this assms(2,3), of derive ?a]
  show "\<exists>s' e'. importAccount derive s e = Menu s' e' \<and>
      accounts s' = accounts s @ [?a] \<and>
      currentAccountIndex s' = length (accounts s) \<and>
      session.account s' = session.account s \<and> userAddress s' = userAddress s \<and>
      walletClient s' = walletClient s \<and>
      marked_current (length (accounts s)) ?a \<in> set (trace e')"
    unfolding importAccount_yes [OF i assms(1) k]
    by fastforce
qed

lemma kept_sessions:
  assumes "holds (kept derive s n) r"
  shows "prefix (accounts s) (accounts (outcome_session r))"
    and "registry_ok derive s \<Longrightarrow> registry_ok derive (outcome_session r)"
    and "binding_ok s \<Longrightarrow> binding_ok (outcome_session r)"
  using assms by (cases r; simp add: kept_def)+

definition run_ok :: "(string \<Rightarrow> address option) \<Rightarrow> run \<Rightarrow> bool" where
  "run_ok derive x =
     (case x of
        Aborted h c e \<Rightarrow> True
      | Session r \<Rightarrow> registry_ok derive (outcome_session r) \<and> binding_ok (outcome_session r))"

lemma run_ok_ask_unset:
  "(\<And>v e'. run_ok derive (k v e')) \<Longrightarrow> run_ok derive (ask_unset v q c e k)"
  by (simp add: ask_unset_def run_ok_def split: list.splits)

lemma first_session_ok:
  assumes "privateKeyToAccount derive key = Some acc"
  shows "registry_ok derive
           \<lparr>config = c, publicClient = pc,
            walletClient = createWalletClient acc c, session.account = acc,
            userAddress = LocalAccount.address acc, tokenAddress = None,
            accounts = [\<lparr>name = nm, AccountInfo.privateKey = key,
               AccountInfo.account = acc, AccountInfo.address = LocalAccount.address acc\<rparr>],
            currentAccountIndex = 0\<rparr> \<and>
         binding_ok
           \<lparr>config = c, publicClient = pc,
            walletClient = createWalletClient acc c, session.account = acc,
            userAddress = LocalAccount.address acc, tokenAddress = None,
            accounts = [\<lparr>name = nm, AccountInfo.privateKey = key,
               AccountInfo.account = acc, AccountInfo.address = LocalAccount.address acc\<rparr>],
            currentAccountIndex = 0\<rparr>"
  using assms
  by (auto simp: registry_ok_def binding_ok_def identity_ok_def privateKeyToAccount_def)

lemma run_ok_Session:
  "holds (kept derive s n) r \<Longrightarrow> registry_ok derive s \<and> binding_ok s \<Longrightarrow> run_ok derive (Session r)"
  using kept_sessions(2,3) [of derive s n r] by (simp add: run_ok_def)

lemma run_ok_case_option:
  "(x = None \<Longrightarrow> run_ok derive a) \<Longrightarrow> (\<And>y. x = Some y \<Longrightarrow> run_ok derive (b y)) \<Longrightarrow>
   run_ok derive (case x of None \<Rightarrow> a | Some y \<Rightarrow> b y)"
  by (cases x) simp_all

lemma run_ok_Aborted: "run_ok derive (Aborted h c e)"
  by (simp add: run_ok_def)

lemma connect_ok: "run_ok derive (connect derive c e)"
  unfolding connect_def Let_def
  apply (intro run_ok_case_option run_ok_Aborted)
  apply (rule run_ok_Session)
   apply (rule holds_try_catch)
    apply (rule kept_request)
     apply (rule kept_start, rule le_refl)
    apply (rule kept_showMainMenu)
    apply simp
   apply simp
  apply (erule first_session_ok)
  done

lemma initialize_ok: "run_ok derive (initialize derive penv e)"
  unfolding initialize_def Let_def
  by (intro run_ok_ask_unset connect_ok)

text \<open>
  C8. An identity is derived when its stored address is the address the signer derives from
  its stored private key (and its account object is the one made from that key). Start-up
  registers only a derived identity; every operation of the menu, and the whole session
  that follows a menu, leaves the identities already stored as they are (the old registry is
  a prefix of the new one) and, from a registry of derived identities, ends in a registry of
  derived identities: the ones appended by create and import are built from
  \<open>privateKeyToAccount\<close> of the generated or entered key.
\<close>

theorem identities_stay_derived:
  "(\<forall>r. initialize derive penv e0 = Session r \<longrightarrow> registry_ok derive (outcome_session r)) \<and>
   prefix (accounts s) (accounts (outcome_session (menu_switch derive choice s e))) \<and>
   prefix (accounts s) (accounts (outcome_session (showMainMenu derive s e))) \<and>
   (registry_ok derive s \<longrightarrow>
      registry_ok derive (outcome_session (menu_switch derive choice s e)) \<and>
      registry_ok derive (outcome_session (showMainMenu derive s e)))"
proof -
  have a: "\<forall>r. initialize derive penv e0 = Session r \<longrightarrow> registry_ok derive (outcome_session r)"
    using initialize_ok [of derive penv e0] by (auto simp: run_ok_def)
  have b: "holds (kept derive s (length (stdin e))) (menu_switch derive choice s e)"
    by (rule kept_menu_switch) (simp add: kept_start)
  have c: "holds (kept derive s (length (stdin e))) (showMainMenu derive s e)"
    by (rule kept_showMainMenu) (simp add: kept_start)
  from a kept_sessions(1,2) [OF b] kept_sessions(1,2) [OF c] show ?thesis
    by blast
qed

lemma demo_registry_ok: "registry_ok demo_derive demo_session"
  by (simp add: registry_ok_def identity_ok_def demo_session_def demo_derive_def demo_account_def)

lemma demo_import:
  "map AccountInfo.address (accounts (outcome_session
     (menu_switch demo_derive ''11'' demo_session (demo_env [''carol'', ''0x3'', ''n''] [])))) =
   [''0xA1'', ''0xA3'']"
  by (simp add: menu_switch_def importAccount_def question_next Let_def startsWith_def
      privateKeyToAccount_def demo_derive_def toLowerCase_def lower_char_def demo_session_def)

theorem identities_stay_derived_witness:
  "registry_ok demo_derive demo_session \<and>
   map AccountInfo.address (accounts (outcome_session
     (menu_switch demo_derive ''11'' demo_session (demo_env [''carol'', ''0x3'', ''n''] [])))) =
     [''0xA1'', ''0xA3''] \<and>
   registry_ok demo_derive (outcome_session
     (menu_switch demo_derive ''11'' demo_session (demo_env [''carol'', ''0x3'', ''n''] [])))"
  using identities_stay_derived [of demo_derive Map.empty "demo_env [] []" demo_session "''11''"
      "demo_env [''carol'', ''0x3'', ''n''] []"]
    demo_registry_ok demo_import
  by simp

lemma parseInt_9: "parseInt ''9'' = Some 9"
  by (simp add: parseInt_def js_whitespace_def startsWith_def is_digit_def digit_chars_def
      nat_of_digits_def digit_val_def)

lemma toLowerCase_y: "toLowerCase ''y'' = ''y''"
  by (simp add: toLowerCase_def lower_char_def)

lemma demo_key: "privateKeyToAccount demo_derive (''0x'' @ ''2'') =
    Some \<lparr>LocalAccount.address = ''0xA2'', source = ''0x2''\<rparr>"
  by (simp add: privateKeyToAccount_def demo_derive_def)

text \<open>A new account named bob, the answer \<open>y\<close>, then the selection 9: the current index
  names bob's identity (address 0xA2) while the signer is still the default account
  (address 0xA1).\<close>

theorem switch_prompt_desynchronises_witness:
  "toLowerCase ''y'' = ''y'' \<and> parseInt ''9'' = Some 9 \<and>
   ((9::int) < 1 \<or> int (length (accounts demo_session)) + 1 < 9) \<and>
   (\<exists>s' e'. createNewAccount demo_derive demo_session (demo_env [''bob'', ''y'', ''9''] []) =
        Menu s' e' \<and>
      map AccountInfo.address (accounts s') = [''0xA1'', ''0xA2''] \<and>
      currentAccountIndex s' = 1 \<and> userAddress s' = ''0xA1'' \<and>
      session.account s' = demo_account)"
proof -
  have h: "(9::int) < 1 \<or> int (length (accounts demo_session)) + 1 < 9"
    by simp
  from switch_prompt_desynchronises [OF toLowerCase_y parseInt_9 h,
      of "demo_env [''bob'', ''y'', ''9''] []" demo_derive]
  have "\<exists>s' e'. createNewAccount demo_derive demo_session (demo_env [''bob'', ''y'', ''9''] []) =
        Menu s' e' \<and>
      accounts s' = accounts demo_session @
        [new_identity ''bob'' (''0x'' @ ''2'') \<lparr>LocalAccount.address = ''0xA2'', source = ''0x2''\<rparr>] \<and>
      currentAccountIndex s' = length (accounts demo_session) \<and>
      session.account s' = session.account demo_session \<and>
      userAddress s' = userAddress demo_session"
    using demo_key by fastforce
  then show ?thesis
    using toLowerCase_y parseInt_9 h
    by (auto simp: new_identity_def demo_session_def)
qed

fun asked :: "event \<Rightarrow> string list" where
  "asked (Question q) = [q]"
| "asked ev = []"

definition questions :: "event list \<Rightarrow> string list" where
  "questions evs = concat (map asked evs)"

fun run_env :: "run \<Rightarrow> env" where
  "run_env (Aborted h c e) = e"
| "run_env (Session r) = outcome_env r"

fun run_config :: "run \<Rightarrow> Config" where
  "run_config (Aborted h c e) = c"
| "run_config (Session r) = config (outcome_session r)"

definition unset :: "(string \<Rightarrow> string option) \<Rightarrow> string \<Rightarrow> bool" where
  "unset penv var = (penv var = None \<or> penv var = Some [])"

lemma questions_simps [simp]:
  "questions [] = []"
  "questions (Question q # evs) = q # questions evs"
  "questions (Log m # evs) = questions evs"
  "questions (Error m # evs) = questions evs"
  "questions (Call c # evs) = questions evs"
  "questions (Close # evs) = questions evs"
  "questions (xs @ ys) = questions xs @ questions ys"
  by (simp_all add: questions_def)

lemma questions_logs [simp]: "questions (map Log ms) = []"
  by (induction ms) simp_all

lemma showMainMenu_closed:
  assumes "stdin e = []" "currentAccountIndex s < length (accounts s)"
  shows "showMainMenu derive s e =
           Halt InputClosed s (emit (Question ''Enter your choice: '')
             (console_lines menu_text
               (console_log (''Current Account: '' @ name (accounts s ! currentAccountIndex s) @
                  '' ('' @ AccountInfo.address (accounts s ! currentAccountIndex s) @ '')'')
                 (console_log ([CHR 0x0A] @ ''=== RWA Token Manager ==='') e))))"
  using assms
  by (subst showMainMenu.simps) (simp add: Let_def question_closed)

lemma or_else_unset: "or_else (penv var) d = (if unset penv var then d else the (penv var))"
  by (auto simp: or_else_def unset_def split: option.splits)

lemma parseInt_empty: "parseInt [] = None"
  by (simp add: parseInt_def startsWith_def)

lemma ask_unset_asks:
  "v = [] \<Longrightarrow> stdin e = l # ls \<Longrightarrow>
   ask_unset v q c e k = k l ((emit (Question q) e)\<lparr>stdin := ls\<rparr>)"
  by (simp add: ask_unset_def)

lemma ask_unset_keeps: "v \<noteq> [] \<Longrightarrow> ask_unset v q c e k = k v e"
  by (simp add: ask_unset_def)

lemma load_config_unset:
  "unset penv ''RPC_URL'' \<Longrightarrow> rpcUrl (load_config penv) = ''http://localhost:8545''"
  "unset penv ''CHAIN_ID'' \<Longrightarrow> chainId (load_config penv) = None"
  "(tokenFactoryAddress (load_config penv) = []) = unset penv ''TOKEN_FACTORY_ADDRESS''"
  "(Config.privateKey (load_config penv) = []) = unset penv ''PRIVATE_KEY''"
  by (auto simp: load_config_def or_else_unset parseInt_empty unset_def)

lemma connect_started:
  assumes "stdin e = []" and "replies e = [Number b]"
    and "privateKeyToAccount derive
           (if startsWith (Config.privateKey c) ''0x'' then Config.privateKey c
            else ''0x'' @ Config.privateKey c) = Some acc"
  shows "\<exists>s' e'. connect derive c e = Session (Halt InputClosed s' e') \<and> config s' = c \<and>
           trace e' = trace e @ drop (length (trace e)) (trace e') \<and>
           questions (drop (length (trace e)) (trace e')) = [''Enter your choice: '']"
proof -
  have key: "privateKeyToAccount derive
      (if \<not> startsWith (Config.privateKey c) ''0x'' then ''0x'' @ Config.privateKey c
       else Config.privateKey c) = Some acc"
    using assms(3) by (simp split: if_splits)
  show ?thesis
    unfolding connect_def Let_def key
    using assms(1,2)
    by (simp add: request_next showMainMenu_closed)
qed

lemma questions_after:
  assumes "trace e1 = trace e @ evs"
    and "trace e' = trace e1 @ drop (length (trace e1)) (trace e')"
  shows "questions (drop (length (trace e)) (trace e')) =
           questions evs @ questions (drop (length (trace e1)) (trace e'))"
proof -
  have "trace e' = trace e @ evs @ drop (length (trace e1)) (trace e')"
    using assms by simp
  then have "drop (length (trace e)) (trace e') = evs @ drop (length (trace e1)) (trace e')"
    by (metis append_eq_conv_conj)
  then show ?thesis by simp
qed

lemma initialize_started:
  assumes i: "stdin e = (if Config.privateKey (load_config penv) = [] then [k] else []) @
                        (if tokenFactoryAddress (load_config penv) = [] then [f] else [])"
    and r: "replies e = [Number b]"
    and c: "c = (load_config penv)
               \<lparr>Config.privateKey :=
                  (if Config.privateKey (load_config penv) = [] then k
                   else Config.privateKey (load_config penv)),
                tokenFactoryAddress :=
                  (if tokenFactoryAddress (load_config penv) = [] then f
                   else tokenFactoryAddress (load_config penv))\<rparr>"
    and key: "privateKeyToAccount derive
           (if startsWith (Config.privateKey c) ''0x'' then Config.privateKey c
            else ''0x'' @ Config.privateKey c) = Some acc"
  shows "\<exists>s' e'. initialize derive penv e = Session (Halt InputClosed s' e') \<and> config s' = c \<and>
           questions (drop (length (trace e)) (trace e')) =
             (if Config.privateKey (load_config penv) = []
              then [''Enter your private key: ''] else []) @
             (if tokenFactoryAddress (load_config penv) = []
              then [''Enter TokenFactory contract address: ''] else []) @
             [''Enter your choice: '']"
proof -
  define e0 where "e0 = console_log ''Connecting to blockchain...'' e"
  define e1 where "e1 =
    (if Config.privateKey (load_config penv) = []
     then (emit (Question ''Enter your private key: '') e0)\<lparr>stdin := tl (stdin e0)\<rparr> else e0)"
  define e2 where "e2 =
    (if tokenFactoryAddress (load_config penv) = []
     then (emit (Question ''Enter TokenFactory contract address: '') e1)\<lparr>stdin := tl (stdin e1)\<rparr>
     else e1)"
  have init: "initialize derive penv e = connect derive c e2"
    unfolding initialize_def Let_def c
    using i
    by (cases "Config.privateKey (load_config penv) = []";
        cases "tokenFactoryAddress (load_config penv) = []")
      (simp_all add: ask_unset_asks ask_unset_keeps e0_def e1_def e2_def)
  have e2: "stdin e2 = []" "replies e2 = [Number b]"
    "trace e2 = trace e @ (Log ''Connecting to blockchain...'' #
       (if Config.privateKey (load_config penv) = []
        then [Question ''Enter your private key: ''] else []) @
       (if tokenFactoryAddress (load_config penv) = []
        then [Question ''Enter TokenFactory contract address: ''] else []))"
    using i r by (auto simp: e0_def e1_def e2_def)
  from connect_started [OF e2(1,2) key] obtain s' e'
    where run: "connect derive c e2 = Session (Halt InputClosed s' e')" "config s' = c"
      and tr: "trace e' = trace e2 @ drop (length (trace e2)) (trace e')"
      and q: "questions (drop (length (trace e2)) (trace e')) = [''Enter your choice: '']"
    by blast
  from questions_after [OF e2(3) tr] q
  have "questions (drop (length (trace e)) (trace e')) =
      (if Config.privateKey (load_config penv) = []
       then [''Enter your private key: ''] else []) @
      (if tokenFactoryAddress (load_config penv) = []
       then [''Enter TokenFactory contract address: ''] else []) @
      [''Enter your choice: '']"
    by simp
  with init run show ?thesis by (intro exI [of _ s'] exI [of _ e']) simp
qed

lemma load_config_set:
  "\<not> unset penv ''RPC_URL'' \<Longrightarrow> rpcUrl (load_config penv) = the (penv ''RPC_URL'')"
  "\<not> unset penv ''CHAIN_ID'' \<Longrightarrow> chainId (load_config penv) = parseInt (the (penv ''CHAIN_ID''))"
  "\<not> unset penv ''TOKEN_FACTORY_ADDRESS'' \<Longrightarrow>
     tokenFactoryAddress (load_config penv) = the (penv ''TOKEN_FACTORY_ADDRESS'')"
  "\<not> unset penv ''PRIVATE_KEY'' \<Longrightarrow> Config.privateKey (load_config penv) = the (penv ''PRIVATE_KEY'')"
  by (simp_all add: load_config_def or_else_unset)

lemma initialize_requests:
  assumes "stdin e = (if unset penv ''PRIVATE_KEY'' then [k] else []) @
                     (if unset penv ''TOKEN_FACTORY_ADDRESS'' then [f] else [])"
    and "replies e = [Number b]"
    and "pk = (if unset penv ''PRIVATE_KEY'' then k else the (penv ''PRIVATE_KEY''))"
    and "privateKeyToAccount derive (if startsWith pk ''0x'' then pk else ''0x'' @ pk) = Some acc"
  shows "\<exists>s' e'. initialize derive penv e = Session (Halt InputClosed s' e') \<and>
           questions (drop (length (trace e)) (trace e')) =
             (if unset penv ''PRIVATE_KEY'' then [''Enter your private key: ''] else []) @
             (if unset penv ''TOKEN_FACTORY_ADDRESS''
              then [''Enter TokenFactory contract address: ''] else []) @
             [''Enter your choice: ''] \<and>
           Config.privateKey (config s') = pk \<and>
           tokenFactoryAddress (config s') =
             (if unset penv ''TOKEN_FACTORY_ADDRESS'' then f
              else the (penv ''TOKEN_FACTORY_ADDRESS'')) \<and>
           rpcUrl (config s') =
             (if unset penv ''RPC_URL'' then ''http://localhost:8545'' else the (penv ''RPC_URL'')) \<and>
           chainId (config s') =
             (if unset penv ''CHAIN_ID'' then None else parseInt (the (penv ''CHAIN_ID'')))"
proof -
  let ?c = "(load_config penv)
     \<lparr>Config.privateKey :=
        (if Config.privateKey (load_config penv) = [] then k
         else Config.privateKey (load_config penv)),
      tokenFactoryAddress :=
        (if tokenFactoryAddress (load_config penv) = [] then f
         else tokenFactoryAddress (load_config penv))\<rparr>"
  have pk: "Config.privateKey ?c = pk"
    using assms(3) by (simp add: load_config_unset load_config_set)
  have i: "stdin e = (if Config.privateKey (load_config penv) = [] then [k] else []) @
                     (if tokenFactoryAddress (load_config penv) = [] then [f] else [])"
    using assms(1) by (simp add: load_config_unset)
  have key: "privateKeyToAccount derive
           (if startsWith (Config.privateKey ?c) ''0x'' then Config.privateKey ?c
            else ''0x'' @ Config.privateKey ?c) = Some acc"
    using assms(4) unfolding pk .
  from initialize_started [OF i assms(2) refl key] obtain s' e'
    where "initialize derive penv e = Session (Halt InputClosed s' e')" "config s' = ?c"
      "questions (drop (length (trace e)) (trace e')) =
         (if Config.privateKey (load_config penv) = []
          then [''Enter your private key: ''] else []) @
         (if tokenFactoryAddress (load_config penv) = []
          then [''Enter TokenFactory contract address: ''] else []) @
         [''Enter your choice: '']"
    by blast
  then show ?thesis
    using assms(3)
    by (intro exI [of _ s'] exI [of _ e'])
      (simp add: load_config_unset load_config_set)
qed

text \<open>
  C2, as stated, fails: with no variable set in the environment, only the private key and
  the factory address are requested before the menu; the RPC URL takes its default and the
  chain id stays unset, neither being asked for.
\<close>

theorem startup_prompts_counterexample:
  "questions (trace (run_env (initialize demo_derive Map.empty
       (demo_env [''0x1'', ''0xF''] [Number 0])))) =
     [''Enter your private key: '', ''Enter TokenFactory contract address: '',
      ''Enter your choice: ''] \<and>
   rpcUrl (run_config (initialize demo_derive Map.empty
       (demo_env [''0x1'', ''0xF''] [Number 0]))) = ''http://localhost:8545'' \<and>
   chainId (run_config (initialize demo_derive Map.empty
       (demo_env [''0x1'', ''0xF''] [Number 0]))) = None"
proof -
  have "privateKeyToAccount demo_derive
      (if startsWith ''0x1'' ''0x'' then ''0x1'' else ''0x'' @ ''0x1'') = Some demo_account"
    by (simp add: privateKeyToAccount_def demo_derive_def demo_account_def startsWith_def)
  from initialize_requests [of "demo_env [''0x1'', ''0xF''] [Number 0]" Map.empty
      "''0x1''" "''0xF''" 0 "''0x1''" demo_derive demo_account, OF _ _ _ this]
  show ?thesis
    by (auto simp: unset_def)
qed

text \<open>
  C2, amended. At start-up the private key, then the factory address, are each requested
  from the operator when unset (or empty) in the environment, and the answer becomes the
  parameter; the RPC URL and the chain id are never requested: an unset RPC URL is
  \<open>http://localhost:8545\<close> and an unset chain id stays unset. The session is the one at
  the first prompt of the main menu.
\<close>

theorem startup_requests_key_and_factory:
  assumes "stdin e = (if unset penv ''PRIVATE_KEY'' then [k] else []) @
                     (if unset penv ''TOKEN_FACTORY_ADDRESS'' then [f] else [])"
    and "replies e = [Number b]"
    and "pk = (if unset penv ''PRIVATE_KEY'' then k else the (penv ''PRIVATE_KEY''))"
    and "privateKeyToAccount derive (if startsWith pk ''0x'' then pk else ''0x'' @ pk) = Some acc"
  shows "\<exists>s' e'. initialize derive penv e = Session (Halt InputClosed s' e') \<and>
           questions (drop (length (trace e)) (trace e')) =
             (if unset penv ''PRIVATE_KEY'' then [''Enter your private key: ''] else []) @
             (if unset penv ''TOKEN_FACTORY_ADDRESS''
              then [''Enter TokenFactory contract address: ''] else []) @
             [''Enter your choice: ''] \<and>
           Config.privateKey (config s') = pk \<and>
           tokenFactoryAddress (config s') =
             (if unset penv ''TOKEN_FACTORY_ADDRESS'' then f
              else the (penv ''TOKEN_FACTORY_ADDRESS'')) \<and>
           rpcUrl (config s') =
             (if unset penv ''RPC_URL'' then ''http://localhost:8545'' else the (penv ''RPC_URL'')) \<and>
           chainId (config s') =
             (if unset penv ''CHAIN_ID'' then None else parseInt (the (penv ''CHAIN_ID'')))"
  using assms by (rule initialize_requests)

theorem startup_requests_key_and_factory_witness:
  "stdin (demo_env [''0xF''] [Number 0]) =
     (if unset [''PRIVATE_KEY'' \<mapsto> ''1'', ''RPC_URL'' \<mapsto> ''http://node:8545''] ''PRIVATE_KEY''
      then [''k''] else []) @
     (if unset [''PRIVATE_KEY'' \<mapsto> ''1'', ''RPC_URL'' \<mapsto> ''http://node:8545'']
        ''TOKEN_FACTORY_ADDRESS'' then [''0xF''] else []) \<and>
   privateKeyToAccount demo_derive (''0x'' @ ''1'') = Some demo_account \<and>
   (\<exists>s' e'. initialize demo_derive [''PRIVATE_KEY'' \<mapsto> ''1'', ''RPC_URL'' \<mapsto> ''http://node:8545'']
        (demo_env [''0xF''] [Number 0]) = Session (Halt InputClosed s' e') \<and>
      questions (trace e') = [''Enter TokenFactory contract address: '', ''Enter your choice: ''] \<and>
      Config.privateKey (config s') = ''1'' \<and> tokenFactoryAddress (config s') = ''0xF'' \<and>
      rpcUrl (config s') = ''http://node:8545'' \<and> chainId (config s') = None)"
proof -
  have u: "\<not> unset [''PRIVATE_KEY'' \<mapsto> ''1'', ''RPC_URL'' \<mapsto> ''http://node:8545''] ''PRIVATE_KEY''"
    "unset [''PRIVATE_KEY'' \<mapsto> ''1'', ''RPC_URL'' \<mapsto> ''http://node:8545''] ''TOKEN_FACTORY_ADDRESS''"
    "\<not> unset [''PRIVATE_KEY'' \<mapsto> ''1'', ''RPC_URL'' \<mapsto> ''http://node:8545''] ''RPC_URL''"
    "unset [''PRIVATE_KEY'' \<mapsto> ''1'', ''RPC_URL'' \<mapsto> ''http://node:8545''] ''CHAIN_ID''"
    by (simp_all add: unset_def)
  have k: "privateKeyToAccount demo_derive (''0x'' @ ''1'') = Some demo_account"
    by (simp add: privateKeyToAccount_def demo_derive_def demo_account_def)
  from startup_requests_key_and_factory [of "demo_env [''0xF''] [Number 0]"
      "[''PRIVATE_KEY'' \<mapsto> ''1'', ''RPC_URL'' \<mapsto> ''http://node:8545'']"
      "''k''" "''0xF''" 0 "''1''" demo_derive demo_account] u k
  show ?thesis
    by (simp add: startsWith_def)
qed

end
